theory Spec2Isabelle
  imports Main "HOL-Library.Finite_Map" "HOL-Library.Word"
begin

section \<open>Go values used by package kubeinterface\<close>

type_synonym int64 = "64 word"

text \<open>
  A Go map is a reference that may be nil: \<open>None\<close> is the nil map, \<open>Some m\<close> an allocated
  map with the entries \<open>m\<close>. Reading a nil map and ranging over it behave as for an empty
  map; assigning to an entry of a nil map panics.
\<close>

type_synonym ('k, 'v) gomap = "('k, 'v) fmap option"

definition entries :: "('k, 'v) gomap \<Rightarrow> ('k, 'v) fmap" where
  "entries m = (case m of None \<Rightarrow> fmempty | Some e \<Rightarrow> e)"

text \<open>\<open>allocated m\<close> is \<open>m\<close> itself when it is allocated and a new empty map when it is nil.\<close>

definition allocated :: "('k, 'v) gomap \<Rightarrow> ('k, 'v) gomap" where
  "allocated m = Some (entries m)"

text \<open>
  The canonical structured form of a serialized object: a scalar or list is a leaf that
  carries its text, an object or map is a list of named fields, \<open>Null\<close> is JSON null.
\<close>

datatype doc = Null | Leaf string | Obj "(string \<times> doc) list"

subsection \<open>Kubernetes API objects (k8s.io/api/core/v1, apimachinery)\<close>

record ObjectMeta =
  Name :: string
  Namespace :: string
  Labels :: "(string, string) gomap"
  Annotations :: "(string, string) gomap"

datatype Quantity = Quantity (Value: int64)

record ResourceRequirements =
  Limits :: "(string, Quantity) gomap"
  Requests :: "(string, Quantity) gomap"

record Container =
  Name :: string
  Resources :: ResourceRequirements

record PodSpec =
  NodeName :: string
  InitContainers :: "Container list"
  Containers :: "Container list"

record PodStatus =
  Phase :: string

record Pod =
  ObjectMeta :: ObjectMeta
  Spec :: PodSpec
  Status :: PodStatus

record NodeStatus =
  Capacity :: "(string, Quantity) gomap"
  Allocatable :: "(string, Quantity) gomap"

record Node =
  ObjectMeta :: ObjectMeta
  Status :: NodeStatus

subsection \<open>Errors\<close>

text \<open>
  Every error value the package can hand back, and the one run-time panic its map writes
  can raise. The errors built with \<open>fmt.Errorf\<close> keep the parts of their message.
\<close>

datatype error =
    JSONError string
  | StoreError string
  | NilMapAssignment
  | MarshalOldFailed string error
  | MarshalNewFailed string error
  | CreatePatchFailed string error
  | PatchNodeMetadataFailed doc string error
  | PatchNodeStatusFailed doc string error
  | PatchPodMetadataFailed doc string error
  | PodMismatch ObjectMeta ObjectMeta

text \<open>\<open>for k, v := range src { dst[k] = v }\<close>: no write happens when \<open>src\<close> has no entry.\<close>

definition assignAll :: "('k, 'v) gomap \<Rightarrow> ('k, 'v) fmap \<Rightarrow> error + ('k, 'v) gomap" where
  "assignAll dst src =
     (if fmdom src = {||} then Inr dst
      else case dst of
             None \<Rightarrow> Inl NilMapAssignment
           | Some d \<Rightarrow> Inr (Some (d ++\<^sub>f src)))"

subsection \<open>strings.TrimSpace\<close>

text \<open>
  Go strings are byte sequences holding UTF-8. \<open>unicode.IsSpace\<close> accepts the runes
  U+0009..U+000D, U+0020, U+0085, U+00A0, U+1680, U+2000..U+200A, U+2028, U+2029, U+202F,
  U+205F and U+3000; \<open>spaceEncodings\<close> lists their UTF-8 encodings.
\<close>

definition spaceEncodings :: "string list" where
  "spaceEncodings =
     [[CHR 0x09], [CHR 0x0A], [CHR 0x0B], [CHR 0x0C], [CHR 0x0D], [CHR 0x20],
      [CHR 0xC2, CHR 0x85], [CHR 0xC2, CHR 0xA0],
      [CHR 0xE1, CHR 0x9A, CHR 0x80],
      [CHR 0xE2, CHR 0x80, CHR 0x80], [CHR 0xE2, CHR 0x80, CHR 0x81],
      [CHR 0xE2, CHR 0x80, CHR 0x82], [CHR 0xE2, CHR 0x80, CHR 0x83],
      [CHR 0xE2, CHR 0x80, CHR 0x84], [CHR 0xE2, CHR 0x80, CHR 0x85],
      [CHR 0xE2, CHR 0x80, CHR 0x86], [CHR 0xE2, CHR 0x80, CHR 0x87],
      [CHR 0xE2, CHR 0x80, CHR 0x88], [CHR 0xE2, CHR 0x80, CHR 0x89],
      [CHR 0xE2, CHR 0x80, CHR 0x8A],
      [CHR 0xE2, CHR 0x80, CHR 0xA8], [CHR 0xE2, CHR 0x80, CHR 0xA9],
      [CHR 0xE2, CHR 0x80, CHR 0xAF],
      [CHR 0xE2, CHR 0x81, CHR 0x9F],
      [CHR 0xE3, CHR 0x80, CHR 0x80]]"

text \<open>The number of leading bytes of \<open>s\<close> that encode one white-space rune, 0 if none do.\<close>

definition spaceWidth :: "string \<Rightarrow> nat" where
  "spaceWidth s =
     (if take 1 s \<in> set spaceEncodings then 1
      else if take 2 s \<in> set spaceEncodings then 2
      else if take 3 s \<in> set spaceEncodings then 3
      else 0)"

function trimLeft :: "string \<Rightarrow> string" where
  "trimLeft s = (if spaceWidth s = 0 then s else trimLeft (drop (spaceWidth s) s))"
  by pat_completeness auto
termination
proof (relation "measure length")
  fix s :: string
  assume w: "spaceWidth s \<noteq> 0"
  have "spaceWidth [] = 0"
    by (simp add: spaceWidth_def spaceEncodings_def)
  with w have "s \<noteq> []" by auto
  with w show "(drop (spaceWidth s) s, s) \<in> measure length" by simp
qed simp

text \<open>The same from the end of the string, on the reversed bytes.\<close>

definition spaceWidthRev :: "string \<Rightarrow> nat" where
  "spaceWidthRev r =
     (if rev (take 1 r) \<in> set spaceEncodings then 1
      else if rev (take 2 r) \<in> set spaceEncodings then 2
      else if rev (take 3 r) \<in> set spaceEncodings then 3
      else 0)"

function trimLeftRev :: "string \<Rightarrow> string" where
  "trimLeftRev r = (if spaceWidthRev r = 0 then r else trimLeftRev (drop (spaceWidthRev r) r))"
  by pat_completeness auto
termination
proof (relation "measure length")
  fix r :: string
  assume w: "spaceWidthRev r \<noteq> 0"
  have "spaceWidthRev [] = 0"
    by (simp add: spaceWidthRev_def spaceEncodings_def)
  with w have "r \<noteq> []" by auto
  with w show "(drop (spaceWidthRev r) r, r) \<in> measure length" by simp
qed simp

definition TrimSpace :: "string \<Rightarrow> string" where
  "TrimSpace s = rev (trimLeftRev (rev (trimLeft s)))"

section \<open>The scheduler's private model (package types of KubeDevice-API)\<close>

text \<open>
  The structs \<open>types.NodeInfo\<close>, \<open>types.PodInfo\<close> and \<open>types.ContainerInfo\<close>, their
  constructors and \<open>types.FillContainerInfo\<close> belong to the imported package
  \<open>github.com/Microsoft/KubeDevice-API/pkg/types\<close>, which is not part of the source. They
  are taken from the data model of the spec.
\<close>

text \<open>
  Modelled from the spec: the types \<open>types.ResourceName\<close>, \<open>types.ResourceList\<close> and
  \<open>types.ResourceLocation\<close>. A resource name is a string, a resource list maps resource
  names to 64-bit quantities, a resource location maps a resource name to the device
  chosen for it.
\<close>

type_synonym ResourceName = string
type_synonym ResourceList = "(ResourceName, int64) gomap"
type_synonym ResourceLocation = "(ResourceName, ResourceName) gomap"

text \<open>
  Modelled from the spec: the struct \<open>types.NodeInfo\<close>, with the name, the capacity and
  the allocatable resources reported by the orchestrator, and the usage recorded by the
  scheduler.
\<close>

record NodeInfo =
  Name :: string
  KubeCap :: ResourceList
  KubeAlloc :: ResourceList
  Used :: ResourceList

text \<open>
  Modelled from the spec: the struct \<open>types.ContainerInfo\<close>, with the scheduler's requests,
  the requests declared to the orchestrator, the device requests and the device
  assignment.
\<close>

record ContainerInfo =
  Requests :: ResourceList
  KubeRequests :: ResourceList
  DevRequests :: ResourceList
  AllocateFrom :: ResourceLocation

text \<open>
  Modelled from the spec: the struct \<open>types.PodInfo\<close>, with the name, the node assigned by
  the scheduler and the container models by container name.
\<close>

record PodInfo =
  Name :: string
  NodeName :: string
  InitContainers :: "(string, ContainerInfo) gomap"
  RunningContainers :: "(string, ContainerInfo) gomap"

text \<open>
  Modelled from the spec: \<open>types.NewNodeInfo\<close> returns the freshly-initialized, empty node
  model: the empty name and allocated maps without entries.
\<close>

definition NewNodeInfo :: NodeInfo where
  "NewNodeInfo =
     \<lparr>NodeInfo.Name = [], KubeCap = Some fmempty, KubeAlloc = Some fmempty, Used = Some fmempty\<rparr>"

text \<open>
  Modelled from the spec: \<open>types.NewContainerInfo\<close> returns the freshly-initialized, empty
  container model: four allocated maps without entries.
\<close>

definition NewContainerInfo :: ContainerInfo where
  "NewContainerInfo =
     \<lparr>ContainerInfo.Requests = Some fmempty, KubeRequests = Some fmempty,
      DevRequests = Some fmempty, AllocateFrom = Some fmempty\<rparr>"

text \<open>
  Modelled from the spec: \<open>types.NewPodInfo\<close> returns the freshly-initialized, empty pod
  model: empty names and allocated container maps without entries.
\<close>

definition NewPodInfo :: PodInfo where
  "NewPodInfo =
     \<lparr>PodInfo.Name = [], PodInfo.NodeName = [],
      PodInfo.InitContainers = Some fmempty, RunningContainers = Some fmempty\<rparr>"

text \<open>
  Modelled from the spec: \<open>types.FillContainerInfo\<close> completes a container model that may be
  partially constructed. A nil map becomes an allocated empty one, and \<open>KubeRequests\<close>
  starts again from an empty map, since that field is overwritten in full from the live
  container spec.
\<close>

definition FillContainerInfo :: "ContainerInfo \<Rightarrow> ContainerInfo" where
  "FillContainerInfo fill =
     fill\<lparr>ContainerInfo.Requests := allocated (ContainerInfo.Requests fill),
          KubeRequests := Some fmempty,
          DevRequests := allocated (DevRequests fill),
          AllocateFrom := allocated (AllocateFrom fill)\<rparr>"

subsection \<open>encoding/json\<close>

text \<open>
  \<open>json.Marshal\<close> and \<open>json.Unmarshal\<close> at the types this package uses them. Unmarshal
  decodes into a model that already holds values, so it takes that model as well as the
  text. The serialized private model is text; a serialized API object is given in its
  structured form \<open>doc\<close>, which is what the patch builder reads out of the bytes.
\<close>

record json =
  MarshalNodeInfo :: "NodeInfo \<Rightarrow> error + string"
  UnmarshalNodeInfo :: "string \<Rightarrow> NodeInfo \<Rightarrow> error + NodeInfo"
  MarshalPodInfo :: "PodInfo \<Rightarrow> error + string"
  UnmarshalPodInfo :: "string \<Rightarrow> PodInfo \<Rightarrow> error + PodInfo"
  MarshalNode :: "Node \<Rightarrow> error + doc"
  MarshalPod :: "Pod \<Rightarrow> error + doc"

section \<open>Codec and reconciler\<close>

definition DeviceInfoKey :: string where
  "DeviceInfoKey = ''KubeDevice/DeviceInfo''"

text \<open>
  \<open>NodeInfoToAnnotation\<close> and \<open>PodInfoToAnnotation\<close> write through the pointer \<open>meta\<close> and
  return an error or nil: the model returns the error, if any, together with the metadata
  as it is after the call.
\<close>

definition NodeInfoToAnnotation ::
  "json \<Rightarrow> ObjectMeta \<Rightarrow> NodeInfo \<Rightarrow> error option \<times> ObjectMeta" where
  "NodeInfoToAnnotation js meta nodeInfo =
     (case MarshalNodeInfo js nodeInfo of
        Inl err \<Rightarrow> (Some err, meta)
      | Inr info \<Rightarrow>
          let meta1 = (if Annotations meta = None then meta\<lparr>Annotations := Some fmempty\<rparr> else meta)
          in (None, meta1\<lparr>Annotations := map_option (fmupd DeviceInfoKey info) (Annotations meta1)\<rparr>))"

text \<open>
  The first statements of \<open>AnnotationToNodeInfo\<close>: a new model, decoded into when the
  annotations are allocated and hold the reserved key.
\<close>

definition decodeNodeInfo :: "json \<Rightarrow> ObjectMeta \<Rightarrow> error + NodeInfo" where
  "decodeNodeInfo js meta =
     (case Annotations meta of
        None \<Rightarrow> Inr NewNodeInfo
      | Some annotations \<Rightarrow>
          (case fmlookup annotations DeviceInfoKey of
             None \<Rightarrow> Inr NewNodeInfo
           | Some nodeInfoStr \<Rightarrow> UnmarshalNodeInfo js nodeInfoStr NewNodeInfo))"

definition AnnotationToNodeInfo ::
  "json \<Rightarrow> ObjectMeta \<Rightarrow> NodeInfo option \<Rightarrow> error + NodeInfo" where
  "AnnotationToNodeInfo js meta existingNodeInfo =
     (case decodeNodeInfo js meta of
        Inl err \<Rightarrow> Inl err
      | Inr nodeInfo \<Rightarrow>
          let nodeInfo1 =
                (if length (TrimSpace (NodeInfo.Name nodeInfo)) = 0
                 then nodeInfo\<lparr>NodeInfo.Name := ObjectMeta.Name meta\<rparr> else nodeInfo)
          in case existingNodeInfo of
               None \<Rightarrow> Inr nodeInfo1
             | Some existing \<Rightarrow>
                 (case Used existing of
                    None \<Rightarrow> Inr nodeInfo1
                  | Some used \<Rightarrow>
                      (case assignAll (Used nodeInfo1) used of
                         Inl panic \<Rightarrow> Inl panic
                       | Inr used1 \<Rightarrow> Inr (nodeInfo1\<lparr>Used := used1\<rparr>))))"

text \<open>One round of the first loop of \<open>addContainersToPodInfo\<close>, for the container \<open>c\<close>.\<close>

definition addContainer ::
  "(string, ContainerInfo) gomap \<Rightarrow> Container \<Rightarrow> error + (string, ContainerInfo) gomap" where
  "addContainer containers c =
     (let cont = (case fmlookup (entries containers) (Container.Name c) of
                    None \<Rightarrow> NewContainerInfo
                  | Some found \<Rightarrow> found);
          contF = FillContainerInfo cont
      in case assignAll (KubeRequests contF)
                (fmmap Value (entries (ResourceRequirements.Requests (Resources c)))) of
           Inl panic \<Rightarrow> Inl panic
         | Inr kubeRequests \<Rightarrow>
             (case containers of
                None \<Rightarrow> Inl NilMapAssignment
              | Some m \<Rightarrow>
                  Inr (Some (fmupd (Container.Name c) (contF\<lparr>KubeRequests := kubeRequests\<rparr>) m))))"

fun addContainers ::
  "(string, ContainerInfo) gomap \<Rightarrow> Container list \<Rightarrow> error + (string, ContainerInfo) gomap" where
  "addContainers containers [] = Inr containers"
| "addContainers containers (c # conts) =
     (case addContainer containers c of
        Inl panic \<Rightarrow> Inl panic
      | Inr containers1 \<Rightarrow> addContainers containers1 conts)"

text \<open>
  The body of the second loop: both maps are made anew and every request is copied into
  \<open>DevRequests\<close>. The loop assigns each visited entry back under its own key, so it
  rewrites every entry of the map once and adds none.
\<close>

definition invalidateContainer :: "ContainerInfo \<Rightarrow> ContainerInfo" where
  "invalidateContainer cont =
     cont\<lparr>AllocateFrom := Some fmempty,
          DevRequests := Some (fmempty ++\<^sub>f entries (ContainerInfo.Requests cont))\<rparr>"

definition addContainersToPodInfo ::
  "(string, ContainerInfo) gomap \<Rightarrow> Container list \<Rightarrow> bool \<Rightarrow>
   error + (string, ContainerInfo) gomap" where
  "addContainersToPodInfo containers conts invalidateExistingAnnotations =
     (case addContainers containers conts of
        Inl panic \<Rightarrow> Inl panic
      | Inr containers1 \<Rightarrow>
          Inr (if invalidateExistingAnnotations
               then map_option (fmmap invalidateContainer) containers1
               else containers1))"

text \<open>The first statements of \<open>KubePodInfoToPodInfo\<close>, "unmarshal from annotations".\<close>

definition decodePodInfo :: "json \<Rightarrow> ObjectMeta \<Rightarrow> error + PodInfo" where
  "decodePodInfo js meta =
     (case Annotations meta of
        None \<Rightarrow> Inr NewPodInfo
      | Some annotations \<Rightarrow>
          (case fmlookup annotations DeviceInfoKey of
             None \<Rightarrow> Inr NewPodInfo
           | Some podInfoStr \<Rightarrow> UnmarshalPodInfo js podInfoStr NewPodInfo))"

definition KubePodInfoToPodInfo :: "json \<Rightarrow> Pod \<Rightarrow> bool \<Rightarrow> error + PodInfo" where
  "KubePodInfoToPodInfo js kubePodInfo invalidateExistingAnnotations =
     (case decodePodInfo js (Pod.ObjectMeta kubePodInfo) of
        Inl err \<Rightarrow> Inl err
      | Inr podInfo \<Rightarrow>
          let podInfo1 = podInfo\<lparr>PodInfo.Name := ObjectMeta.Name (Pod.ObjectMeta kubePodInfo)\<rparr>
          in case addContainersToPodInfo (PodInfo.InitContainers podInfo1)
                    (PodSpec.InitContainers (Spec kubePodInfo)) invalidateExistingAnnotations of
               Inl panic \<Rightarrow> Inl panic
             | Inr initContainers \<Rightarrow>
                 (case addContainersToPodInfo (RunningContainers podInfo1)
                         (Containers (Spec kubePodInfo)) invalidateExistingAnnotations of
                    Inl panic \<Rightarrow> Inl panic
                  | Inr runningContainers \<Rightarrow>
                      let podInfo2 = podInfo1\<lparr>PodInfo.InitContainers := initContainers,
                                              RunningContainers := runningContainers\<rparr>
                      in Inr (if invalidateExistingAnnotations
                              then podInfo2\<lparr>PodInfo.NodeName := []\<rparr> else podInfo2)))"

definition PodInfoToAnnotation ::
  "json \<Rightarrow> ObjectMeta \<Rightarrow> PodInfo \<Rightarrow> error option \<times> ObjectMeta" where
  "PodInfoToAnnotation js meta podInfo =
     (case MarshalPodInfo js podInfo of
        Inl err \<Rightarrow> (Some err, meta)
      | Inr info \<Rightarrow>
          let meta1 = (if Annotations meta = None then meta\<lparr>Annotations := Some fmempty\<rparr> else meta)
          in (None, meta1\<lparr>Annotations := map_option (fmupd DeviceInfoKey info) (Annotations meta1)\<rparr>))"

section \<open>Patch builder and update orchestrator\<close>

subsection \<open>The client of the remote store (client-go, CoreV1Interface)\<close>

text \<open>
  Every call on the client is a request to the store. What the store answers is not
  decided by this package: each method of the client is a function of the requests served
  so far and of the request's arguments. A function that talks to the store takes the
  list of requests served so far and returns it extended by the requests it made, in
  order, so that what was sent, how often and in which order can be read off the result.
\<close>

datatype PatchType = JSONPatchType | MergePatchType | StrategicMergePatchType

datatype request =
    NodesPatch string PatchType doc "string list"
  | PodsGet string string
  | PodsPatch string string PatchType doc "string list"
  | PodsUpdate string Pod

record CoreV1 =
  nodesPatch :: "request list \<Rightarrow> string \<Rightarrow> PatchType \<Rightarrow> doc \<Rightarrow> string list \<Rightarrow> error + Node"
  podsGet :: "request list \<Rightarrow> string \<Rightarrow> string \<Rightarrow> error + Pod"
  podsPatch ::
    "request list \<Rightarrow> string \<Rightarrow> string \<Rightarrow> PatchType \<Rightarrow> doc \<Rightarrow> string list \<Rightarrow> error + Pod"
  podsUpdate :: "request list \<Rightarrow> string \<Rightarrow> Pod \<Rightarrow> error + Pod"

definition Nodes_Patch ::
  "CoreV1 \<Rightarrow> string \<Rightarrow> PatchType \<Rightarrow> doc \<Rightarrow> string list \<Rightarrow> request list \<Rightarrow>
   (error + Node) \<times> request list" where
  "Nodes_Patch c name pt data subresources served =
     (nodesPatch c served name pt data subresources,
      served @ [NodesPatch name pt data subresources])"

definition Pods_Get ::
  "CoreV1 \<Rightarrow> string \<Rightarrow> string \<Rightarrow> request list \<Rightarrow> (error + Pod) \<times> request list" where
  "Pods_Get c namespace name served =
     (podsGet c served namespace name, served @ [PodsGet namespace name])"

definition Pods_Patch ::
  "CoreV1 \<Rightarrow> string \<Rightarrow> string \<Rightarrow> PatchType \<Rightarrow> doc \<Rightarrow> string list \<Rightarrow> request list \<Rightarrow>
   (error + Pod) \<times> request list" where
  "Pods_Patch c namespace name pt data subresources served =
     (podsPatch c served namespace name pt data subresources,
      served @ [PodsPatch namespace name pt data subresources])"

definition Pods_Update ::
  "CoreV1 \<Rightarrow> string \<Rightarrow> Pod \<Rightarrow> request list \<Rightarrow> (error + Pod) \<times> request list" where
  "Pods_Update c namespace pod served =
     (podsUpdate c served namespace pod, served @ [PodsUpdate namespace pod])"

subsection \<open>strategicpatch.CreateTwoWayMergePatch and the store's merge\<close>

text \<open>
  \<open>strategicpatch.CreateTwoWayMergePatch\<close> belongs to the imported package
  \<open>k8s.io/apimachinery\<close>, which is not part of the source; the spec describes it as a
  diff of the structured forms of the original and the modified object that mentions no
  field the two agree on.
\<close>

text \<open>
  Modelled from the spec: the part of the patch of \<open>CreateTwoWayMergePatch\<close> for the fields
  that the modified object no longer has. Each of them appears with the value null.
\<close>

definition deletions :: "(string \<times> doc) list \<Rightarrow> (string \<times> doc) list \<Rightarrow> (string \<times> doc) list" where
  "deletions original modified =
     map (\<lambda>(k, v). (k, Null)) (filter (\<lambda>(k, v). map_of modified k = None) original)"

text \<open>
  Modelled from the spec: the part of the patch of \<open>CreateTwoWayMergePatch\<close> for the fields
  of the modified object. A field that is new appears with its value and a field that is
  unchanged does not appear. A changed field appears with its new value (scalars and
  lists are replaced as a whole), except that two objects are diffed field by field and
  appear with the nested patch, or not at all when that is empty.
\<close>

function diffFields :: "(string \<times> doc) list \<Rightarrow> (string \<times> doc) list \<Rightarrow> (string \<times> doc) list" where
  "diffFields original [] = []"
| "diffFields original ((k, v) # modified) =
     (case map_of original k of
        None \<Rightarrow> [(k, v)]
      | Some u \<Rightarrow>
          if u = v then []
          else (case (u, v) of
                  (Obj originalFields, Obj modifiedFields) \<Rightarrow>
                    (let nested = diffFields originalFields modifiedFields
                                  @ deletions originalFields modifiedFields
                     in if nested = [] then [] else [(k, Obj nested)])
                | _ \<Rightarrow> [(k, v)]))
     @ diffFields original modified"
  by pat_completeness auto
termination
  by (relation "measure (\<lambda>(original, modified). size_list (size_prod (\<lambda>k. 0) size) modified)")
     auto

text \<open>
  Modelled from the spec: \<open>strategicpatch.CreateTwoWayMergePatch\<close>, the patch that leads
  from the original to the modified document. Both must be objects. \<open>dataStruct\<close> names
  the type of the object that is diffed.
\<close>

definition CreateTwoWayMergePatch :: "doc \<Rightarrow> doc \<Rightarrow> 'a \<Rightarrow> error + doc" where
  "CreateTwoWayMergePatch original modified dataStruct =
     (case (original, modified) of
        (Obj originalFields, Obj modifiedFields) \<Rightarrow>
          Inr (Obj (diffFields originalFields modifiedFields
                    @ deletions originalFields modifiedFields))
      | _ \<Rightarrow> Inl (JSONError ''invalid JSON document''))"

text \<open>
  Modelled from the spec: how the remote store applies a patch to the object it holds
  (merge semantics). A field patched with null is removed, an object patched with an
  object is patched field by field, any other patched field takes the value from the
  patch, and a field the patch does not mention stays as it is.
\<close>

function applyFields :: "(string \<times> doc) list \<Rightarrow> (string \<times> doc) list \<Rightarrow> (string \<times> doc) list" where
  "applyFields current [] = current"
| "applyFields current ((k, p) # patch) =
     applyFields
       (if p = Null then filter (\<lambda>(k', v). k' \<noteq> k) current
        else case map_of current k of
               None \<Rightarrow> current @ [(k, p)]
             | Some u \<Rightarrow>
                 map (\<lambda>(k', v).
                        if k' = k
                        then (k', case (u, p) of
                                    (Obj currentFields, Obj patchFields) \<Rightarrow>
                                      Obj (applyFields currentFields patchFields)
                                  | _ \<Rightarrow> p)
                        else (k', v)) current)
       patch"
  by pat_completeness auto
termination
  by (relation "measure (\<lambda>(current, patch). size_list (size_prod (\<lambda>k. 0) size) patch)")
     auto

subsection \<open>The operations\<close>

text \<open>The zero values \<open>kubev1.Node{}\<close> and \<open>kubev1.Pod{}\<close> passed as \<open>dataStruct\<close>.\<close>

definition emptyObjectMeta :: ObjectMeta where
  "emptyObjectMeta = \<lparr>ObjectMeta.Name = [], Namespace = [], Labels = None, Annotations = None\<rparr>"

definition emptyNode :: Node where
  "emptyNode = \<lparr>Node.ObjectMeta = emptyObjectMeta,
                 Node.Status = \<lparr>Capacity = None, Allocatable = None\<rparr>\<rparr>"

definition emptyPod :: Pod where
  "emptyPod = \<lparr>Pod.ObjectMeta = emptyObjectMeta,
                Spec = \<lparr>PodSpec.NodeName = [], PodSpec.InitContainers = [], Containers = []\<rparr>,
                Pod.Status = \<lparr>Phase = []\<rparr>\<rparr>"

definition GetPatchBytes ::
  "CoreV1 \<Rightarrow> ('a \<Rightarrow> error + doc) \<Rightarrow> string \<Rightarrow> 'a \<Rightarrow> 'a \<Rightarrow> 'a \<Rightarrow> error + doc" where
  "GetPatchBytes c marshal resourceName old new dataStruct =
     (case marshal old of
        Inl err \<Rightarrow> Inl (MarshalOldFailed resourceName err)
      | Inr oldData \<Rightarrow>
          (case marshal new of
             Inl err \<Rightarrow> Inl (MarshalNewFailed resourceName err)
           | Inr newData \<Rightarrow>
               (case CreateTwoWayMergePatch oldData newData dataStruct of
                  Inl err \<Rightarrow> Inl (CreatePatchFailed resourceName err)
                | Inr patchBytes \<Rightarrow> Inr patchBytes)))"

definition PatchNodeMetadata ::
  "json \<Rightarrow> CoreV1 \<Rightarrow> string \<Rightarrow> Node \<Rightarrow> Node \<Rightarrow> request list \<Rightarrow>
   (error + Node) \<times> request list" where
  "PatchNodeMetadata js c nodeName oldNode newNode served =
     (case GetPatchBytes c (MarshalNode js) nodeName oldNode newNode emptyNode of
        Inl err \<Rightarrow> (Inl err, served)
      | Inr patchBytes \<Rightarrow>
          (case Nodes_Patch c nodeName StrategicMergePatchType patchBytes [] served of
             (Inl err, served1) \<Rightarrow>
               (Inl (PatchNodeMetadataFailed patchBytes nodeName err), served1)
           | (Inr updatedNode, served1) \<Rightarrow>
               (case Nodes_Patch c nodeName StrategicMergePatchType patchBytes [''status'']
                       served1 of
                  (Inl err, served2) \<Rightarrow>
                    (Inl (PatchNodeStatusFailed patchBytes nodeName err), served2)
                | (Inr updatedNode, served2) \<Rightarrow> (Inr updatedNode, served2))))"

definition PatchPodMetadata ::
  "json \<Rightarrow> CoreV1 \<Rightarrow> string \<Rightarrow> Pod \<Rightarrow> Pod \<Rightarrow> request list \<Rightarrow>
   (error + Pod) \<times> request list" where
  "PatchPodMetadata js c podName oldPod newPod served =
     (case GetPatchBytes c (MarshalPod js) podName oldPod newPod emptyPod of
        Inl err \<Rightarrow> (Inl err, served)
      | Inr patchBytes \<Rightarrow>
          (case Pods_Patch c (Namespace (Pod.ObjectMeta oldPod)) podName StrategicMergePatchType
                  patchBytes [] served of
             (Inl err, served1) \<Rightarrow>
               (Inl (PatchPodMetadataFailed patchBytes podName err), served1)
           | (Inr updatedPod, served1) \<Rightarrow> (Inr updatedPod, served1)))"

definition UpdatePodMetadata ::
  "CoreV1 \<Rightarrow> Pod \<Rightarrow> request list \<Rightarrow> (error + Pod) \<times> request list" where
  "UpdatePodMetadata c newPod served =
     (case Pods_Get c (Namespace (Pod.ObjectMeta newPod)) (ObjectMeta.Name (Pod.ObjectMeta newPod))
             served of
        (Inl err, served1) \<Rightarrow> (Inl err, served1)
      | (Inr oldPod, served1) \<Rightarrow>
          if ObjectMeta.Name (Pod.ObjectMeta newPod) \<noteq> ObjectMeta.Name (Pod.ObjectMeta oldPod)
             \<or> Namespace (Pod.ObjectMeta newPod) \<noteq> Namespace (Pod.ObjectMeta oldPod)
          then (Inl (PodMismatch (Pod.ObjectMeta newPod) (Pod.ObjectMeta oldPod)), served1)
          else
            let modifiedPod =
                  oldPod\<lparr>Pod.ObjectMeta :=
                    (Pod.ObjectMeta oldPod)\<lparr>Annotations := Annotations (Pod.ObjectMeta newPod)\<rparr>\<rparr>
            in Pods_Update c (Namespace (Pod.ObjectMeta modifiedPod)) modifiedPod served1)"

section \<open>Closed forms and worked examples\<close>

text \<open>
  What one round of the first loop of \<open>addContainersToPodInfo\<close> stores for the container
  \<open>c\<close>, given the model it found or made: the filled model with \<open>KubeRequests\<close> holding
  the requests that \<open>c\<close> declares.
\<close>

definition reconciled :: "Container \<Rightarrow> ContainerInfo \<Rightarrow> ContainerInfo" where
  "reconciled c cont =
     (FillContainerInfo cont)\<lparr>KubeRequests :=
        Some (fmmap Value (entries (ResourceRequirements.Requests (Resources c))))\<rparr>"

text \<open>The entry under the key \<open>k\<close> after the first loop has run over \<open>conts\<close>.\<close>

fun entryAfter :: "Container list \<Rightarrow> string \<Rightarrow> ContainerInfo option \<Rightarrow> ContainerInfo option" where
  "entryAfter [] k e = e"
| "entryAfter (c # conts) k e =
     entryAfter conts k
       (if Container.Name c = k
        then Some (reconciled c (case e of None \<Rightarrow> NewContainerInfo | Some found \<Rightarrow> found))
        else e)"

text \<open>
  What the codec has to carry through the annotation. \<open>carried invalidate conts decoded written\<close>
  relates the container map \<open>decoded\<close> that is read back to the container map \<open>written\<close>
  that was encoded: both are nil or both are allocated, they hold the same container names,
  and two entries of the same name agree on the fields that the reconciliation over \<open>conts\<close>
  does not write anew. For a container named in \<open>conts\<close> the first loop fills the nil maps
  and overwrites \<open>KubeRequests\<close>, so only the entries of \<open>Requests\<close>, \<open>DevRequests\<close> and
  \<open>AllocateFrom\<close> count (\<open>agreeDeclared\<close>). For any other container nothing is filled, and
  \<open>Requests\<close> and \<open>KubeRequests\<close> stay as they are read (\<open>agreeOther\<close>). With \<open>invalidate\<close>
  the second loop makes \<open>DevRequests\<close> and \<open>AllocateFrom\<close> of every entry anew, so these two
  fields need not be carried. A codec that reads back exactly what was written carries every
  map. A codec that leaves out \<open>KubeRequests\<close> and the maps without entries still carries
  the entries of the containers named in \<open>conts\<close>.
\<close>

definition agreeDeclared :: "bool \<Rightarrow> ContainerInfo \<Rightarrow> ContainerInfo \<Rightarrow> bool" where
  "agreeDeclared invalidate d w \<longleftrightarrow>
     entries (ContainerInfo.Requests d) = entries (ContainerInfo.Requests w) \<and>
     (\<not> invalidate \<longrightarrow> entries (DevRequests d) = entries (DevRequests w) \<and>
                         entries (AllocateFrom d) = entries (AllocateFrom w))"

definition agreeOther :: "bool \<Rightarrow> ContainerInfo \<Rightarrow> ContainerInfo \<Rightarrow> bool" where
  "agreeOther invalidate d w \<longleftrightarrow>
     ContainerInfo.Requests d = ContainerInfo.Requests w \<and> KubeRequests d = KubeRequests w \<and>
     (\<not> invalidate \<longrightarrow> DevRequests d = DevRequests w \<and> AllocateFrom d = AllocateFrom w)"

definition carried ::
  "bool \<Rightarrow> Container list \<Rightarrow> (string, ContainerInfo) gomap \<Rightarrow> (string, ContainerInfo) gomap \<Rightarrow> bool" where
  "carried invalidate conts decoded written \<longleftrightarrow>
     (decoded = None \<longleftrightarrow> written = None) \<and>
     fmdom (entries decoded) = fmdom (entries written) \<and>
     (\<forall>k |\<in>| fmdom (entries written).
        case (fmlookup (entries decoded) k, fmlookup (entries written) k) of
          (Some d, Some w) \<Rightarrow>
            if k \<in> Container.Name ` set conts then agreeDeclared invalidate d w
            else agreeOther invalidate d w
        | _ \<Rightarrow> False)"

text \<open>
  A container map in which the reconciliation over \<open>conts\<close> finds nothing to change: every
  container of \<open>conts\<close> has an entry whose \<open>Requests\<close>, \<open>DevRequests\<close> and \<open>AllocateFrom\<close>
  are allocated and whose \<open>KubeRequests\<close> are the requests that the container declares; with
  \<open>invalidate\<close>, moreover, every entry has an allocated, empty \<open>AllocateFrom\<close> and a
  \<open>DevRequests\<close> with exactly the entries of its \<open>Requests\<close>.
\<close>

definition settled :: "bool \<Rightarrow> Container list \<Rightarrow> (string, ContainerInfo) gomap \<Rightarrow> bool" where
  "settled invalidate conts containers \<longleftrightarrow>
     (\<forall>c \<in> set conts.
        case fmlookup (entries containers) (Container.Name c) of
          None \<Rightarrow> False
        | Some cont \<Rightarrow>
            ContainerInfo.Requests cont \<noteq> None \<and> DevRequests cont \<noteq> None \<and>
            AllocateFrom cont \<noteq> None \<and>
            KubeRequests cont
              = Some (fmmap Value (entries (ResourceRequirements.Requests (Resources c))))) \<and>
     (invalidate \<longrightarrow>
        (\<forall>k |\<in>| fmdom (entries containers).
           case fmlookup (entries containers) k of
             None \<Rightarrow> False
           | Some cont \<Rightarrow>
               AllocateFrom cont = Some fmempty \<and>
               DevRequests cont = Some (entries (ContainerInfo.Requests cont))))"

text \<open>
  A codec given by two tables of texts and the models they stand for: it serializes a
  model to its text, deserializes a text to its model, and rejects everything else. It
  stands for \<open>encoding/json\<close> in the worked examples.
\<close>

definition exampleJson :: "(string \<times> NodeInfo) list \<Rightarrow> (string \<times> PodInfo) list \<Rightarrow> json" where
  "exampleJson nodes pods =
     \<lparr>MarshalNodeInfo =
        (\<lambda>n. case find (\<lambda>(str, model). model = n) nodes of
               Some (str, model) \<Rightarrow> Inr str
             | None \<Rightarrow> Inl (JSONError ''unsupported value'')),
      UnmarshalNodeInfo =
        (\<lambda>s into. case map_of nodes s of
                    Some model \<Rightarrow> Inr model
                  | None \<Rightarrow> Inl (JSONError ''invalid character'')),
      MarshalPodInfo =
        (\<lambda>p. case find (\<lambda>(str, model). model = p) pods of
               Some (str, model) \<Rightarrow> Inr str
             | None \<Rightarrow> Inl (JSONError ''unsupported value'')),
      UnmarshalPodInfo =
        (\<lambda>s into. case map_of pods s of
                    Some model \<Rightarrow> Inr model
                  | None \<Rightarrow> Inl (JSONError ''invalid character'')),
      MarshalNode = (\<lambda>n. Inl (JSONError ''unsupported value'')),
      MarshalPod = (\<lambda>p. Inl (JSONError ''unsupported value''))\<rparr>"

text \<open>
  A codec that need not read back what it wrote: a model is serialized to its text in the
  table \<open>written\<close>, and a text is deserialized to its model in the table \<open>decoded\<close>.
\<close>

definition exampleLossyJson ::
  "(string \<times> NodeInfo) list \<Rightarrow> (string \<times> PodInfo) list \<Rightarrow> (string \<times> PodInfo) list \<Rightarrow> json" where
  "exampleLossyJson nodes written decoded =
     (exampleJson nodes written)
       \<lparr>UnmarshalPodInfo :=
          (\<lambda>s into. case map_of decoded s of
                      Some model \<Rightarrow> Inr model
                    | None \<Rightarrow> Inl (JSONError ''invalid character''))\<rparr>"

definition exampleNodeInfo :: NodeInfo where
  "exampleNodeInfo =
     \<lparr>NodeInfo.Name = ''gpu-node'', KubeCap = Some fmempty, KubeAlloc = Some fmempty,
      Used = Some (fmupd ''gpu'' 1 (fmupd ''mem'' 4 fmempty))\<rparr>"

definition exampleMeta :: ObjectMeta where
  "exampleMeta =
     \<lparr>ObjectMeta.Name = ''node-1'', Namespace = [], Labels = None,
      Annotations = Some (fmupd ''owner'' ''team-a'' fmempty)\<rparr>"

definition exampleNodeText :: string where
  "exampleNodeText = ''{name:gpu-node,used:{gpu:1,mem:4}}''"

definition exampleExisting :: NodeInfo where
  "exampleExisting = NewNodeInfo\<lparr>Used := Some (fmupd ''gpu'' 3 (fmupd ''cpu'' 2 fmempty))\<rparr>"

definition examplePodText :: string where
  "examplePodText = ''{nodename:node-1,runningcontainer:{main:{requests:{gpu:2},devrequests:{gpu:1},allocatefrom:{gpu:gpu-0}}}}''"

definition examplePodInfo :: PodInfo where
  "examplePodInfo =
     \<lparr>PodInfo.Name = [], PodInfo.NodeName = ''node-1'',
      PodInfo.InitContainers = Some fmempty,
      RunningContainers =
        Some (fmupd ''main''
                \<lparr>ContainerInfo.Requests = Some (fmupd ''gpu'' 2 fmempty), KubeRequests = None,
                 DevRequests = Some (fmupd ''gpu'' 1 fmempty),
                 AllocateFrom = Some (fmupd ''gpu'' ''gpu-0'' fmempty)\<rparr> fmempty)\<rparr>"

definition examplePod :: Pod where
  "examplePod =
     \<lparr>Pod.ObjectMeta =
        \<lparr>ObjectMeta.Name = ''pod-1'', Namespace = ''default'', Labels = None,
         Annotations = Some (fmupd DeviceInfoKey examplePodText fmempty)\<rparr>,
      Spec = \<lparr>PodSpec.NodeName = [], PodSpec.InitContainers = [],
              Containers = [\<lparr>Container.Name = ''main'',
                             Resources = \<lparr>Limits = None,
                               ResourceRequirements.Requests =
                                 Some (fmupd ''cpu'' (Quantity 4) fmempty)\<rparr>\<rparr>]\<rparr>,
      Status = \<lparr>Phase = ''Pending''\<rparr>\<rparr>"

definition exampleInvalidatedText :: string where
  "exampleInvalidatedText = ''{podname:pod-1,runningcontainer:{main:{requests:{gpu:2},devrequests:{gpu:2}}}}''"

definition exampleInvalidated :: PodInfo where
  "exampleInvalidated =
     \<lparr>PodInfo.Name = ''pod-1'', PodInfo.NodeName = [],
      PodInfo.InitContainers = Some fmempty,
      RunningContainers =
        Some (fmupd ''main''
                \<lparr>ContainerInfo.Requests = Some (fmupd ''gpu'' 2 fmempty),
                 KubeRequests = Some (fmupd ''cpu'' 4 fmempty),
                 DevRequests = Some (fmupd ''gpu'' 2 fmempty),
                 AllocateFrom = Some fmempty\<rparr> fmempty)\<rparr>"

definition exampleBarePod :: Pod where
  "exampleBarePod = examplePod\<lparr>Pod.ObjectMeta := exampleMeta\<lparr>ObjectMeta.Name := ''pod-1''\<rparr>\<rparr>"

definition exampleFresh :: PodInfo where
  "exampleFresh =
     \<lparr>PodInfo.Name = ''pod-1'', PodInfo.NodeName = [],
      PodInfo.InitContainers = Some fmempty,
      RunningContainers =
        Some (fmupd ''main''
                \<lparr>ContainerInfo.Requests = Some fmempty,
                 KubeRequests = Some (fmupd ''cpu'' 4 fmempty),
                 DevRequests = Some fmempty, AllocateFrom = Some fmempty\<rparr> fmempty)\<rparr>"

text \<open>
  The codec of the worked examples for the round trip. Its texts mention neither
  \<open>KubeRequests\<close> nor a field that is empty, and what it reads from a text holds what the
  text mentions: \<open>KubeRequests\<close> is nil in every container read back, and so is a map of a
  container that had no entries when it was written; a container map of the pod model that
  had no entries is the allocated, empty map of the new pod model that the text is read
  into. \<open>exampleSettled\<close> is a pod model of the pod
  \<open>examplePod\<close> with a device assigned, \<open>exampleSettledDecoded\<close> is what is read back from its
  text, and \<open>exampleInvalidatedDecoded\<close> is what is read back from the text of
  \<open>exampleInvalidated\<close>.
\<close>

definition exampleInvalidatedDecoded :: PodInfo where
  "exampleInvalidatedDecoded =
     \<lparr>PodInfo.Name = ''pod-1'', PodInfo.NodeName = [],
      PodInfo.InitContainers = Some fmempty,
      RunningContainers =
        Some (fmupd ''main''
                \<lparr>ContainerInfo.Requests = Some (fmupd ''gpu'' 2 fmempty), KubeRequests = None,
                 DevRequests = Some (fmupd ''gpu'' 2 fmempty), AllocateFrom = None\<rparr> fmempty)\<rparr>"

definition exampleSettledText :: string where
  "exampleSettledText = ''{podname:pod-1,nodename:node-1,runningcontainer:{main:{requests:{gpu:2},devrequests:{gpu:1},allocatefrom:{gpu:gpu-0}}}}''"

definition exampleSettled :: PodInfo where
  "exampleSettled =
     \<lparr>PodInfo.Name = ''pod-1'', PodInfo.NodeName = ''node-1'',
      PodInfo.InitContainers = Some fmempty,
      RunningContainers =
        Some (fmupd ''main''
                \<lparr>ContainerInfo.Requests = Some (fmupd ''gpu'' 2 fmempty),
                 KubeRequests = Some (fmupd ''cpu'' 4 fmempty),
                 DevRequests = Some (fmupd ''gpu'' 1 fmempty),
                 AllocateFrom = Some (fmupd ''gpu'' ''gpu-0'' fmempty)\<rparr> fmempty)\<rparr>"

definition exampleSettledDecoded :: PodInfo where
  "exampleSettledDecoded = examplePodInfo\<lparr>PodInfo.Name := ''pod-1''\<rparr>"

definition exampleNamedText :: string where
  "exampleNamedText = ''{podname:pod-1}''"

definition exampleNamed :: PodInfo where
  "exampleNamed = NewPodInfo\<lparr>PodInfo.Name := ''pod-1''\<rparr>"

definition exampleEmptyPod :: Pod where
  "exampleEmptyPod = examplePod\<lparr>Spec := (Spec examplePod)\<lparr>Containers := []\<rparr>\<rparr>"

definition exampleCodec :: json where
  "exampleCodec =
     exampleLossyJson
       [(exampleNodeText, exampleNodeInfo), (''{}'', NewNodeInfo)]
       [(exampleInvalidatedText, exampleInvalidated), (exampleSettledText, exampleSettled),
        (exampleNamedText, exampleNamed), (''{}'', NewPodInfo)]
       [(exampleInvalidatedText, exampleInvalidatedDecoded), (exampleSettledText, exampleSettledDecoded),
        (exampleNamedText, exampleNamed), (''{}'', NewPodInfo), (examplePodText, examplePodInfo)]"

text \<open>
  A store that answers every pod request with success and rejects a node patch exactly
  when it is aimed at the given sub-resources.
\<close>

definition exampleClient :: "Node \<Rightarrow> Pod \<Rightarrow> string list \<Rightarrow> CoreV1" where
  "exampleClient node pod rejected =
     \<lparr>nodesPatch = (\<lambda>served name pt data subresources.
                      if subresources = rejected then Inl (StoreError ''forbidden'') else Inr node),
      podsGet = (\<lambda>served namespace name. Inr pod),
      podsPatch = (\<lambda>served namespace name pt data subresources. Inr pod),
      podsUpdate = (\<lambda>served namespace submitted. Inr submitted)\<rparr>"

text \<open>The example codec extended by tables of API objects and their structured forms.\<close>

definition exampleObjectJson :: "(Node \<times> doc) list \<Rightarrow> (Pod \<times> doc) list \<Rightarrow> json" where
  "exampleObjectJson nodes pods =
     (exampleJson [] [])
       \<lparr>MarshalNode := (\<lambda>n. case map_of nodes n of
                               Some d \<Rightarrow> Inr d
                             | None \<Rightarrow> Inl (JSONError ''unsupported value'')),
        MarshalPod := (\<lambda>p. case map_of pods p of
                              Some d \<Rightarrow> Inr d
                            | None \<Rightarrow> Inl (JSONError ''unsupported value''))\<rparr>"

definition exampleOldNode :: Node where
  "exampleOldNode =
     \<lparr>Node.ObjectMeta = exampleMeta\<lparr>Annotations := None\<rparr>,
      Node.Status = \<lparr>Capacity = Some (fmupd ''cpu'' (Quantity 8) fmempty), Allocatable = None\<rparr>\<rparr>"

definition exampleNewNode :: Node where
  "exampleNewNode =
     exampleOldNode\<lparr>Node.ObjectMeta :=
       exampleMeta\<lparr>Annotations := Some (fmupd DeviceInfoKey exampleNodeText fmempty)\<rparr>\<rparr>"

definition exampleOldNodeDoc :: doc where
  "exampleOldNodeDoc =
     Obj [(''metadata'', Obj [(''name'', Leaf ''node-1'')]),
          (''status'', Obj [(''capacity'', Obj [(''cpu'', Leaf ''8'')])])]"

definition exampleNewNodeDoc :: doc where
  "exampleNewNodeDoc =
     Obj [(''metadata'', Obj [(''name'', Leaf ''node-1''),
                              (''annotations'', Obj [(DeviceInfoKey, Leaf exampleNodeText)])]),
          (''status'', Obj [(''capacity'', Obj [(''cpu'', Leaf ''8'')])])]"

definition examplePatch :: doc where
  "examplePatch =
     Obj [(''metadata'', Obj [(''annotations'', Obj [(DeviceInfoKey, Leaf exampleNodeText)])])]"

definition exampleDesiredPod :: Pod where
  "exampleDesiredPod =
     examplePod\<lparr>Pod.ObjectMeta :=
                  (Pod.ObjectMeta examplePod)\<lparr>Annotations :=
                     Some (fmupd DeviceInfoKey exampleInvalidatedText fmempty)\<rparr>,
                Spec := (Spec examplePod)\<lparr>PodSpec.NodeName := ''node-1''\<rparr>\<rparr>"

definition exampleRemoteFields :: "(string \<times> doc) list" where
  "exampleRemoteFields =
     [(''metadata'', Obj [(''name'', Leaf ''node-1''), (''labels'', Obj [(''zone'', Leaf ''a'')])]),
      (''spec'', Obj [(''unschedulable'', Leaf ''true'')]),
      (''status'', Obj [(''capacity'', Obj [(''cpu'', Leaf ''16'')])])]"

section \<open>Facts about the model\<close>

subsection \<open>Maps, white space and the decoding step\<close>

lemma entries_simps [simp]: "entries None = fmempty" "entries (Some m) = m"
  by (simp_all add: entries_def)

lemma fmdom_empty_iff: "fmdom m = {||} \<longleftrightarrow> m = fmempty"
  by (metis fmdom_empty fmrestrict_fset_dom fmrestrict_fset_null)

lemma assignAll_allocated: "assignAll (Some d) src = Inr (Some (d ++\<^sub>f src))"
  by (simp add: assignAll_def fmdom_empty_iff)

lemma assignAll_nil: "assignAll None src = (if src = fmempty then Inr None else Inl NilMapAssignment)"
  by (simp add: assignAll_def fmdom_empty_iff)

lemma TrimSpace_Nil [simp]: "TrimSpace [] = []"
  by (simp add: TrimSpace_def spaceWidth_def spaceWidthRev_def spaceEncodings_def)

lemmas TrimSpace_eval = TrimSpace_def spaceWidth_def spaceWidthRev_def spaceEncodings_def

lemma decodeNodeInfo_absent:
  "fmlookup (entries (Annotations meta)) DeviceInfoKey = None \<Longrightarrow> decodeNodeInfo js meta = Inr NewNodeInfo"
  by (cases "Annotations meta") (auto simp: decodeNodeInfo_def split: option.splits)

lemma decodeNodeInfo_present:
  "fmlookup (entries (Annotations meta)) DeviceInfoKey = Some s \<Longrightarrow>
   decodeNodeInfo js meta = UnmarshalNodeInfo js s NewNodeInfo"
  by (cases "Annotations meta") (auto simp: decodeNodeInfo_def split: option.splits)

lemma decodePodInfo_absent:
  "fmlookup (entries (Annotations meta)) DeviceInfoKey = None \<Longrightarrow> decodePodInfo js meta = Inr NewPodInfo"
  by (cases "Annotations meta") (auto simp: decodePodInfo_def split: option.splits)

lemma decodePodInfo_present:
  "fmlookup (entries (Annotations meta)) DeviceInfoKey = Some s \<Longrightarrow>
   decodePodInfo js meta = UnmarshalPodInfo js s NewPodInfo"
  by (cases "Annotations meta") (auto simp: decodePodInfo_def split: option.splits)

subsection \<open>The two loops of addContainersToPodInfo\<close>

lemma addContainer_allocated:
  "addContainer (Some m) c =
     Inr (Some (fmupd (Container.Name c)
                  (reconciled c (case fmlookup m (Container.Name c) of
                                   None \<Rightarrow> NewContainerInfo | Some found \<Rightarrow> found)) m))"
  by (simp add: addContainer_def FillContainerInfo_def assignAll_allocated reconciled_def Let_def)

lemma addContainer_nil: "addContainer None c = Inl NilMapAssignment"
  by (simp add: addContainer_def FillContainerInfo_def assignAll_allocated Let_def)

lemma addContainers_nil:
  "addContainers None conts = (if conts = [] then Inr None else Inl NilMapAssignment)"
  by (cases conts) (simp_all add: addContainer_nil)

lemma addContainers_allocated:
  "\<exists>m'. addContainers (Some m) conts = Inr (Some m') \<and>
         (\<forall>k. fmlookup m' k = entryAfter conts k (fmlookup m k))"
proof (induction conts arbitrary: m)
  case Nil
  show ?case by simp
next
  case (Cons c conts)
  let ?m1 = "fmupd (Container.Name c)
               (reconciled c (case fmlookup m (Container.Name c) of
                                None \<Rightarrow> NewContainerInfo | Some found \<Rightarrow> found)) m"
  from Cons.IH [of ?m1] obtain m' where
    run: "addContainers (Some ?m1) conts = Inr (Some m')" and
    look: "\<forall>k. fmlookup m' k = entryAfter conts k (fmlookup ?m1 k)"
    by blast
  have "addContainers (Some m) (c # conts) = Inr (Some m')"
    by (simp add: addContainer_allocated run)
  moreover have "fmlookup m' k = entryAfter (c # conts) k (fmlookup m k)" for k
    using look by simp
  ultimately show ?case by blast
qed

lemma reconciled_reconciled: "reconciled c (reconciled c' cont) = reconciled c cont"
  by (simp add: reconciled_def FillContainerInfo_def allocated_def)

lemma entryAfter_other:
  "k \<notin> Container.Name ` set conts \<Longrightarrow> entryAfter conts k e = e"
  by (induction conts arbitrary: e) auto

lemma entryAfter_named:
  "k \<in> Container.Name ` set conts \<Longrightarrow>
   \<exists>c \<in> set conts. Container.Name c = k \<and>
     (\<forall>e. entryAfter conts k e =
            Some (reconciled c (case e of None \<Rightarrow> NewContainerInfo | Some found \<Rightarrow> found)))"
proof (induction conts)
  case Nil
  then show ?case by simp
next
  case (Cons c conts)
  show ?case
  proof (cases "k \<in> Container.Name ` set conts")
    case True
    with Cons.IH obtain c' where c': "c' \<in> set conts" "Container.Name c' = k"
      and all: "\<forall>e. entryAfter conts k e =
            Some (reconciled c' (case e of None \<Rightarrow> NewContainerInfo | Some found \<Rightarrow> found))"
      by blast
    have "entryAfter (c # conts) k e =
            Some (reconciled c' (case e of None \<Rightarrow> NewContainerInfo | Some found \<Rightarrow> found))" for e
      by (simp add: all reconciled_reconciled)
    with c' show ?thesis by auto
  next
    case False
    with Cons.prems have k: "Container.Name c = k" by auto
    have "entryAfter (c # conts) k e =
            Some (reconciled c (case e of None \<Rightarrow> NewContainerInfo | Some found \<Rightarrow> found))" for e
      using False k by (simp add: entryAfter_other)
    with k show ?thesis by auto
  qed
qed

lemma reconciled_New:
  "reconciled c NewContainerInfo =
     NewContainerInfo\<lparr>KubeRequests :=
        Some (fmmap Value (entries (ResourceRequirements.Requests (Resources c))))\<rparr>"
  by (simp add: reconciled_def FillContainerInfo_def NewContainerInfo_def allocated_def)

lemma invalidate_reconciled_New:
  "invalidateContainer (reconciled c NewContainerInfo) = reconciled c NewContainerInfo"
  unfolding reconciled_New by (simp add: invalidateContainer_def NewContainerInfo_def)

lemma invalidate_invalidate:
  "invalidateContainer (invalidateContainer cont) = invalidateContainer cont"
  by (simp add: invalidateContainer_def)

lemma invalidate_reconciled_invalidate:
  "invalidateContainer (reconciled c (invalidateContainer cont)) =
   invalidateContainer (reconciled c cont)"
  by (simp add: invalidateContainer_def reconciled_def FillContainerInfo_def allocated_def)

lemma addContainersToPodInfo_nil:
  "addContainersToPodInfo None conts invalidate = (if conts = [] then Inr None else Inl NilMapAssignment)"
  by (simp add: addContainersToPodInfo_def addContainers_nil)

lemma addContainersToPodInfo_allocated:
  "\<exists>m'. addContainersToPodInfo (Some m) conts invalidate = Inr (Some m') \<and>
         (\<forall>k. fmlookup m' k =
                (if invalidate then map_option invalidateContainer (entryAfter conts k (fmlookup m k))
                 else entryAfter conts k (fmlookup m k)))"
proof -
  from addContainers_allocated [of m conts] obtain m1 where
    "addContainers (Some m) conts = Inr (Some m1)"
    "\<forall>k. fmlookup m1 k = entryAfter conts k (fmlookup m k)"
    by blast
  then show ?thesis
    by (cases invalidate) (simp_all add: addContainersToPodInfo_def)
qed

lemma invalidated_entries:
  assumes "addContainersToPodInfo containers conts True = Inr result"
      and "fmlookup (entries result) k = Some cont"
  shows "\<exists>before. cont = invalidateContainer before"
proof -
  from assms(1) obtain containers1 where
    res: "result = map_option (fmmap invalidateContainer) containers1"
    by (auto simp: addContainersToPodInfo_def split: sum.splits)
  from assms(2) show ?thesis
    unfolding res by (cases containers1) auto
qed

subsection \<open>Reconciling a pod\<close>

lemma KubePodInfoToPodInfo_Inr:
  "KubePodInfoToPodInfo js pod invalidate = Inr podInfo \<longleftrightarrow>
     (\<exists>decoded ic rc.
        decodePodInfo js (Pod.ObjectMeta pod) = Inr decoded \<and>
        addContainersToPodInfo (PodInfo.InitContainers decoded)
          (PodSpec.InitContainers (Spec pod)) invalidate = Inr ic \<and>
        addContainersToPodInfo (RunningContainers decoded) (Containers (Spec pod)) invalidate = Inr rc \<and>
        podInfo = \<lparr>PodInfo.Name = ObjectMeta.Name (Pod.ObjectMeta pod),
                   PodInfo.NodeName = (if invalidate then [] else PodInfo.NodeName decoded),
                   PodInfo.InitContainers = ic, RunningContainers = rc\<rparr>)"
  by (cases "decodePodInfo js (Pod.ObjectMeta pod)")
     (auto simp: KubePodInfoToPodInfo_def Let_def split: sum.splits)

lemmas reconcile_eval =
  KubePodInfoToPodInfo_def decodePodInfo_def addContainersToPodInfo_def addContainer_def
  FillContainerInfo_def allocated_def assignAll_allocated invalidateContainer_def
  NewContainerInfo_def fmmap_fmupd Let_def

lemma examplePod_invalidated:
  "KubePodInfoToPodInfo
     (exampleJson [] [(examplePodText, examplePodInfo), (exampleInvalidatedText, exampleInvalidated)])
     examplePod True = Inr exampleInvalidated"
  by (simp add: reconcile_eval exampleJson_def examplePod_def examplePodInfo_def
        exampleInvalidated_def examplePodText_def exampleInvalidatedText_def)

lemma fresh_containers:
  "\<exists>m'. addContainersToPodInfo (Some fmempty) conts invalidate = Inr (Some m') \<and>
         fmdom' m' = Container.Name ` set conts \<and>
         (\<forall>k cont. fmlookup m' k = Some cont \<longrightarrow>
            (\<exists>c \<in> set conts. Container.Name c = k \<and>
               cont = NewContainerInfo\<lparr>KubeRequests :=
                  Some (fmmap Value (entries (ResourceRequirements.Requests (Resources c))))\<rparr>))"
proof -
  from addContainersToPodInfo_allocated [of fmempty conts invalidate] obtain m' where
    run: "addContainersToPodInfo (Some fmempty) conts invalidate = Inr (Some m')" and
    look: "\<And>k. fmlookup m' k =
             (if invalidate then map_option invalidateContainer (entryAfter conts k None)
              else entryAfter conts k None)"
    by auto
  have other: "fmlookup m' k = None" if "k \<notin> Container.Name ` set conts" for k
    using that by (simp add: look entryAfter_other)
  have named: "\<exists>c \<in> set conts. Container.Name c = k \<and>
                 fmlookup m' k = Some (reconciled c NewContainerInfo)"
    if "k \<in> Container.Name ` set conts" for k
  proof -
    from entryAfter_named [OF that] obtain c where
      "c \<in> set conts" "Container.Name c = k"
      "entryAfter conts k None = Some (reconciled c NewContainerInfo)"
      by force
    then show ?thesis
      by (auto simp: look invalidate_reconciled_New)
  qed
  have "fmdom' m' = Container.Name ` set conts"
  proof (rule set_eqI)
    fix k
    show "k \<in> fmdom' m' \<longleftrightarrow> k \<in> Container.Name ` set conts"
      using other [of k] named [of k]
      by (cases "k \<in> Container.Name ` set conts") (auto simp: fmlookup_dom'_iff)
  qed
  moreover have "\<exists>c \<in> set conts. Container.Name c = k \<and>
               cont = NewContainerInfo\<lparr>KubeRequests :=
                  Some (fmmap Value (entries (ResourceRequirements.Requests (Resources c))))\<rparr>"
    if "fmlookup m' k = Some cont" for k cont
    using that other [of k] named [of k]
    by (cases "k \<in> Container.Name ` set conts") (auto simp: reconciled_New)
  ultimately show ?thesis
    using run by blast
qed

lemma reconciled_fixed:
  assumes "ContainerInfo.Requests cont \<noteq> None" "DevRequests cont \<noteq> None"
    "AllocateFrom cont \<noteq> None"
    "KubeRequests cont = Some (fmmap Value (entries (ResourceRequirements.Requests (Resources c))))"
  shows "reconciled c cont = cont"
  using assms by (cases cont) (auto simp: reconciled_def FillContainerInfo_def allocated_def)

subsection \<open>What the codec has to carry\<close>

lemma reconciled_agree: "agreeDeclared False d w \<Longrightarrow> reconciled c d = reconciled c w"
  by (cases d; cases w)
     (simp add: agreeDeclared_def reconciled_def FillContainerInfo_def allocated_def)

lemma invalidate_reconciled_agree:
  "agreeDeclared invalidate d w \<Longrightarrow>
   invalidateContainer (reconciled c d) = invalidateContainer (reconciled c w)"
  by (cases d; cases w)
     (simp add: agreeDeclared_def invalidateContainer_def reconciled_def FillContainerInfo_def
        allocated_def)

lemma invalidate_agree: "agreeOther invalidate d w \<Longrightarrow> invalidateContainer d = invalidateContainer w"
  by (cases d; cases w) (simp add: agreeOther_def invalidateContainer_def)

lemma agreeOther_eq: "agreeOther False d w \<Longrightarrow> d = w"
  by (cases d; cases w) (simp add: agreeOther_def)

lemma invalidate_fixed:
  "AllocateFrom w = Some fmempty \<Longrightarrow> DevRequests w = Some (entries (ContainerInfo.Requests w)) \<Longrightarrow>
   invalidateContainer w = w"
  by (cases w) (simp add: invalidateContainer_def)

lemma carried_cases [consumes 1, case_names absent present]:
  assumes "carried invalidate conts decoded written"
  obtains "fmlookup (entries decoded) k = None" "fmlookup (entries written) k = None"
    | d w where "fmlookup (entries decoded) k = Some d" "fmlookup (entries written) k = Some w"
        "k \<in> Container.Name ` set conts \<Longrightarrow> agreeDeclared invalidate d w"
        "k \<notin> Container.Name ` set conts \<Longrightarrow> agreeOther invalidate d w"
proof (cases "k |\<in>| fmdom (entries written)")
  case True
  with assms have "case (fmlookup (entries decoded) k, fmlookup (entries written) k) of
          (Some d, Some w) \<Rightarrow>
            if k \<in> Container.Name ` set conts then agreeDeclared invalidate d w
            else agreeOther invalidate d w
        | _ \<Rightarrow> False"
    unfolding carried_def by blast
  then obtain d w where "fmlookup (entries decoded) k = Some d"
    "fmlookup (entries written) k = Some w"
    "if k \<in> Container.Name ` set conts then agreeDeclared invalidate d w
     else agreeOther invalidate d w"
    by (auto split: option.splits)
  then show thesis
    by (intro that(2) [of d w]) simp_all
next
  case False
  moreover from False assms have "k |\<notin>| fmdom (entries decoded)"
    by (simp add: carried_def)
  ultimately show thesis
    by (intro that(1)) (simp_all add: fmdom_notD)
qed

lemma carried_refl:
  "carried invalidate conts containers containers"
  by (auto simp: carried_def agreeDeclared_def agreeOther_def split: option.splits
           dest: fmdom_notI)

lemma addContainersToPodInfo_eqI:
  assumes nil: "decoded = None \<longleftrightarrow> written = None"
      and none: "written = None \<Longrightarrow> conts = []"
      and look: "\<And>k. (if invalidate
                       then map_option invalidateContainer
                              (entryAfter conts k (fmlookup (entries decoded) k))
                       else entryAfter conts k (fmlookup (entries decoded) k))
                     = fmlookup (entries written) k"
  shows "addContainersToPodInfo decoded conts invalidate = Inr written"
proof (cases decoded)
  case None
  with nil none show ?thesis
    by (simp add: addContainersToPodInfo_nil)
next
  case (Some m)
  with nil obtain w where w: "written = Some w" by auto
  from addContainersToPodInfo_allocated [of m conts invalidate] obtain m' where
    run: "addContainersToPodInfo (Some m) conts invalidate = Inr (Some m')" and
    look': "\<And>k. fmlookup m' k =
             (if invalidate then map_option invalidateContainer (entryAfter conts k (fmlookup m k))
              else entryAfter conts k (fmlookup m k))"
    by auto
  have "fmlookup m' k = fmlookup w k" for k
    using look [of k] by (cases invalidate) (simp_all add: look' Some w)
  then have "m' = w" by (rule fmap_ext)
  with run Some w show ?thesis by simp
qed

lemma carried_settled:
  assumes carried: "carried invalidate conts decoded written"
      and settled: "settled invalidate conts written"
  shows "addContainersToPodInfo decoded conts invalidate = Inr written"
proof (rule addContainersToPodInfo_eqI)
  from carried show "decoded = None \<longleftrightarrow> written = None"
    by (simp add: carried_def)
next
  assume "written = None"
  with settled show "conts = []"
    by (cases conts) (auto simp: settled_def)
next
  fix k
  from carried show "(if invalidate
              then map_option invalidateContainer (entryAfter conts k (fmlookup (entries decoded) k))
              else entryAfter conts k (fmlookup (entries decoded) k))
             = fmlookup (entries written) k"
  proof (cases rule: carried_cases [where k = k])
    case absent
    have "k \<notin> Container.Name ` set conts"
    proof
      assume "k \<in> Container.Name ` set conts"
      then obtain c where "c \<in> set conts" "Container.Name c = k" by auto
      with settled absent(2) show False
        by (auto simp: settled_def)
    qed
    with absent show ?thesis
      by (simp add: entryAfter_other)
  next
    case (present d w)
    have inval: "invalidateContainer w = w" if invalidate
    proof -
      from present(2) have "k |\<in>| fmdom (entries written)"
        by (rule fmdomI)
      with settled that present(2) have "AllocateFrom w = Some fmempty \<and>
          DevRequests w = Some (entries (ContainerInfo.Requests w))"
        by (auto simp: settled_def)
      then show ?thesis by (simp add: invalidate_fixed)
    qed
    show ?thesis
    proof (cases "k \<in> Container.Name ` set conts")
      case True
      from entryAfter_named [OF True] obtain c where c: "c \<in> set conts" "Container.Name c = k"
        and after: "\<And>e. entryAfter conts k e =
              Some (reconciled c (case e of None \<Rightarrow> NewContainerInfo | Some found \<Rightarrow> found))"
        by blast
      from settled c(1) have
        "case fmlookup (entries written) (Container.Name c) of
           None \<Rightarrow> False
         | Some cont \<Rightarrow>
             ContainerInfo.Requests cont \<noteq> None \<and> DevRequests cont \<noteq> None \<and>
             AllocateFrom cont \<noteq> None \<and>
             KubeRequests cont
               = Some (fmmap Value (entries (ResourceRequirements.Requests (Resources c))))"
        by (simp add: settled_def)
      with present(2) c(2) have fixed: "reconciled c w = w"
        by (simp add: reconciled_fixed)
      note agree = present(3) [OF True]
      show ?thesis
      proof (cases invalidate)
        case True
        with invalidate_reconciled_agree [OF agree, of c] fixed inval show ?thesis
          by (simp add: present after)
      next
        case False
        with agree have "reconciled c d = reconciled c w"
          by (simp add: reconciled_agree)
        with False fixed show ?thesis
          by (simp add: present after)
      qed
    next
      case False
      note agree = present(4) [OF False]
      show ?thesis
      proof (cases invalidate)
        case True
        with invalidate_agree [OF agree] inval False show ?thesis
          by (simp add: present entryAfter_other)
      next
        case inv: False
        with agree have "d = w" by (simp add: agreeOther_eq)
        with inv False show ?thesis
          by (simp add: present entryAfter_other)
      qed
    qed
  qed
qed

lemma carried_first_run:
  assumes first: "addContainersToPodInfo containers conts True = Inr written"
      and carried: "carried True conts decoded written"
  shows "addContainersToPodInfo decoded conts True = Inr written"
proof (cases containers)
  case None
  with first have "conts = []" "written = None"
    by (auto simp: addContainersToPodInfo_nil split: if_splits)
  moreover from carried \<open>written = None\<close> have "decoded = None"
    by (simp add: carried_def)
  ultimately show ?thesis
    by (simp add: addContainersToPodInfo_nil)
next
  case (Some m)
  from addContainersToPodInfo_allocated [of m conts True] first Some obtain m1 where
    w: "written = Some m1" and
    look1: "\<And>k. fmlookup m1 k = map_option invalidateContainer (entryAfter conts k (fmlookup m k))"
    by auto
  show ?thesis
  proof (rule addContainersToPodInfo_eqI)
    from carried show "decoded = None \<longleftrightarrow> written = None"
      by (simp add: carried_def)
  next
    assume "written = None"
    with w show "conts = []" by simp
  next
    fix k
    from carried show "(if True
                then map_option invalidateContainer (entryAfter conts k (fmlookup (entries decoded) k))
                else entryAfter conts k (fmlookup (entries decoded) k))
               = fmlookup (entries written) k"
    proof (cases rule: carried_cases [where k = k])
      case absent
      have "k \<notin> Container.Name ` set conts"
      proof
        assume "k \<in> Container.Name ` set conts"
        from entryAfter_named [OF this] absent(2) show False
          by (auto simp: w look1)
      qed
      with absent show ?thesis
        by (simp add: entryAfter_other)
    next
      case (present d w)
      show ?thesis
      proof (cases "k \<in> Container.Name ` set conts")
        case True
        from entryAfter_named [OF True] obtain c where
          after: "\<And>e. entryAfter conts k e =
                Some (reconciled c (case e of None \<Rightarrow> NewContainerInfo | Some found \<Rightarrow> found))"
          by blast
        from invalidate_reconciled_agree [OF present(3) [OF True], of c]
        have "invalidateContainer (reconciled c d) = invalidateContainer (reconciled c w)" .
        moreover from present(2) have "w = invalidateContainer (reconciled c
            (case fmlookup m k of None \<Rightarrow> NewContainerInfo | Some found \<Rightarrow> found))"
          by (simp add: w look1 after)
        ultimately have "invalidateContainer (reconciled c d) = w"
          by (simp add: invalidate_reconciled_invalidate reconciled_reconciled invalidate_invalidate)
        then show ?thesis
          by (simp add: present after)
      next
        case False
        from invalidate_agree [OF present(4) [OF False]]
        have "invalidateContainer d = invalidateContainer w" .
        moreover from present(2) False have "\<exists>x. w = invalidateContainer x"
          by (auto simp: w look1 entryAfter_other)
        ultimately have "invalidateContainer d = w"
          by (auto simp: invalidate_invalidate)
        with False show ?thesis
          by (simp add: present entryAfter_other)
      qed
    qed
  qed
qed

lemma invalidation_settles:
  assumes "addContainersToPodInfo containers conts True = Inr result"
  shows "addContainersToPodInfo result conts True = Inr result"
  using assms carried_refl by (rule carried_first_run)

lemma annotation_after_encode:
  assumes "PodInfoToAnnotation js meta podInfo = (None, meta')"
  shows "\<exists>text. MarshalPodInfo js podInfo = Inr text \<and>
           fmlookup (entries (Annotations meta')) DeviceInfoKey = Some text \<and>
           ObjectMeta.Name meta' = ObjectMeta.Name meta"
  using assms
  by (cases "Annotations meta")
     (auto simp: PodInfoToAnnotation_def Let_def split: sum.splits)

lemma annotation_written:
  assumes "PodInfoToAnnotation js meta podInfo = (None, meta')"
      and "MarshalPodInfo js podInfo = Inr podInfoStr"
      and "UnmarshalPodInfo js podInfoStr NewPodInfo = Inr decoded"
  shows "decodePodInfo js meta' = Inr decoded \<and> ObjectMeta.Name meta' = ObjectMeta.Name meta"
  using annotation_after_encode [OF assms(1)] assms(2,3)
  by (auto simp: decodePodInfo_present)

subsection \<open>The example codec\<close>

lemma fmupd_not_empty: "fmupd k v m \<noteq> fmempty" "fmempty \<noteq> fmupd k v m"
proof -
  have "fmlookup (fmupd k v m) k \<noteq> fmlookup fmempty k" by simp
  then show "fmupd k v m \<noteq> fmempty" "fmempty \<noteq> fmupd k v m" by metis+
qed

lemmas exampleCodec_eval =
  exampleCodec_def exampleLossyJson_def exampleJson_def exampleInvalidatedText_def
  exampleSettledText_def exampleNamedText_def examplePodText_def exampleNodeText_def

lemma exampleCodec_marshal:
  "MarshalPodInfo exampleCodec exampleInvalidated = Inr exampleInvalidatedText"
  "MarshalPodInfo exampleCodec exampleSettled = Inr exampleSettledText"
  "MarshalPodInfo exampleCodec exampleNamed = Inr exampleNamedText"
  "MarshalPodInfo exampleCodec NewPodInfo = Inr ''{}''"
  "MarshalNodeInfo exampleCodec exampleNodeInfo = Inr exampleNodeText"
  "MarshalNodeInfo exampleCodec NewNodeInfo = Inr ''{}''"
  by (simp_all add: exampleCodec_def exampleLossyJson_def exampleJson_def exampleInvalidated_def
        exampleSettled_def exampleNamed_def NewPodInfo_def exampleNodeInfo_def NewNodeInfo_def
        fmupd_not_empty)

lemma exampleCodec_unmarshal:
  "UnmarshalPodInfo exampleCodec exampleInvalidatedText into = Inr exampleInvalidatedDecoded"
  "UnmarshalPodInfo exampleCodec exampleSettledText into = Inr exampleSettledDecoded"
  "UnmarshalPodInfo exampleCodec exampleNamedText into = Inr exampleNamed"
  "UnmarshalPodInfo exampleCodec ''{}'' into = Inr NewPodInfo"
  "UnmarshalPodInfo exampleCodec examplePodText into = Inr examplePodInfo"
  "UnmarshalNodeInfo exampleCodec exampleNodeText intoN = Inr exampleNodeInfo"
  "UnmarshalNodeInfo exampleCodec ''{}'' intoN = Inr NewNodeInfo"
  by (simp_all add: exampleCodec_eval)


lemma exampleCodec_encode:
  "PodInfoToAnnotation exampleCodec (Pod.ObjectMeta examplePod) exampleInvalidated
     = (None, (Pod.ObjectMeta examplePod)\<lparr>Annotations :=
              Some (fmupd DeviceInfoKey exampleInvalidatedText fmempty)\<rparr>)"
  "PodInfoToAnnotation exampleCodec (Pod.ObjectMeta examplePod) exampleSettled
     = (None, (Pod.ObjectMeta examplePod)\<lparr>Annotations :=
              Some (fmupd DeviceInfoKey exampleSettledText fmempty)\<rparr>)"
  by (simp_all add: PodInfoToAnnotation_def exampleCodec_marshal) (simp_all add: examplePod_def)

lemma example_carried:
  "carried invalidate (PodSpec.InitContainers (Spec examplePod))
     (PodInfo.InitContainers exampleInvalidatedDecoded) (PodInfo.InitContainers exampleInvalidated)"
  "carried invalidate (Containers (Spec examplePod))
     (RunningContainers exampleInvalidatedDecoded) (RunningContainers exampleInvalidated)"
  "carried invalidate (PodSpec.InitContainers (Spec examplePod))
     (PodInfo.InitContainers exampleSettledDecoded) (PodInfo.InitContainers exampleSettled)"
  "carried invalidate (Containers (Spec examplePod))
     (RunningContainers exampleSettledDecoded) (RunningContainers exampleSettled)"
  by (simp_all add: carried_def agreeDeclared_def examplePod_def exampleInvalidatedDecoded_def
        exampleInvalidated_def exampleSettledDecoded_def exampleSettled_def examplePodInfo_def)

lemma example_settled:
  "settled invalidate (PodSpec.InitContainers (Spec examplePod)) (PodInfo.InitContainers exampleInvalidated)"
  "settled invalidate (Containers (Spec examplePod)) (RunningContainers exampleInvalidated)"
  "settled False (PodSpec.InitContainers (Spec examplePod)) (PodInfo.InitContainers exampleSettled)"
  "settled False (Containers (Spec examplePod)) (RunningContainers exampleSettled)"
  by (simp_all add: settled_def examplePod_def exampleInvalidated_def exampleSettled_def fmmap_fmupd)

lemma exampleCodec_encode_node:
  "NodeInfoToAnnotation exampleCodec exampleMeta exampleNodeInfo
     = (None, exampleMeta\<lparr>Annotations :=
              Some (fmupd DeviceInfoKey exampleNodeText (fmupd ''owner'' ''team-a'' fmempty))\<rparr>)"
  "NodeInfoToAnnotation exampleCodec exampleMeta NewNodeInfo
     = (None, exampleMeta\<lparr>Annotations :=
              Some (fmupd DeviceInfoKey ''{}'' (fmupd ''owner'' ''team-a'' fmempty))\<rparr>)"
  by (simp_all add: NodeInfoToAnnotation_def exampleCodec_marshal) (simp_all add: exampleMeta_def)

lemma exampleSettled_lost: "exampleSettledDecoded \<noteq> exampleSettled"
proof
  assume "exampleSettledDecoded = exampleSettled"
  then have "map_option KubeRequests (fmlookup (entries (RunningContainers exampleSettledDecoded)) ''main'')
           = map_option KubeRequests (fmlookup (entries (RunningContainers exampleSettled)) ''main'')"
    by simp
  then show False
    by (simp add: exampleSettledDecoded_def examplePodInfo_def exampleSettled_def)
qed

subsection \<open>Building and applying a patch\<close>

lemma diffFields_unchanged:
  "\<forall>(k, v) \<in> set modified. map_of original k = Some v \<Longrightarrow> diffFields original modified = []"
  by (induction modified) auto

lemma diffFields_one_key:
  assumes "distinct (map fst modified)"
      and "\<forall>(k, v) \<in> set modified. k \<noteq> key \<longrightarrow> map_of original k = Some v"
  shows "diffFields original modified =
           (case map_of modified key of None \<Rightarrow> [] | Some v \<Rightarrow> diffFields original [(key, v)])"
  using assms
proof (induction modified)
  case Nil
  then show ?case by simp
next
  case (Cons e modified)
  obtain k v where e: "e = (k, v)" by (cases e)
  show ?case
  proof (cases "k = key")
    case True
    from Cons.prems e True have "\<forall>(k', v') \<in> set modified. map_of original k' = Some v'"
      by (fastforce simp: image_iff)
    then have "diffFields original modified = []"
      by (rule diffFields_unchanged)
    with e True show ?thesis by simp
  next
    case False
    with Cons.prems e have same: "map_of original k = Some v" by auto
    from Cons.prems have "distinct (map fst modified)"
      "\<forall>(k', v') \<in> set modified. k' \<noteq> key \<longrightarrow> map_of original k' = Some v'"
      by auto
    from Cons.IH [OF this] e False same show ?thesis by simp
  qed
qed

lemma diffFields_singleton_shape:
  "diffFields original [(key, v)] = [] \<or> (\<exists>a. diffFields original [(key, v)] = [(key, a)])"
  by (auto simp: Let_def split: option.splits doc.splits)

lemma entries_agree:
  assumes "distinct (map fst modified)"
      and "\<forall>k. k \<noteq> key \<longrightarrow> map_of modified k = map_of original k"
  shows "\<forall>(k, v) \<in> set modified. k \<noteq> key \<longrightarrow> map_of original k = Some v"
proof (intro ballI, clarify)
  fix k v
  assume "(k, v) \<in> set modified" "k \<noteq> key"
  with assms(1) have "map_of modified k = Some v"
    by (simp add: map_of_is_SomeI)
  with assms(2) \<open>k \<noteq> key\<close> show "map_of original k = Some v"
    by simp
qed

lemma deletions_one_key:
  assumes "distinct (map fst original)"
      and "\<forall>k. k \<noteq> key \<longrightarrow> map_of modified k = map_of original k"
  shows "deletions original modified =
           (if map_of modified key = None \<and> map_of original key \<noteq> None then [(key, Null)] else [])"
proof -
  have keep: "filter (\<lambda>(k, v). map_of modified k = None) original =
              (if map_of modified key = None then filter (\<lambda>(k, v). k = key) original else [])"
  proof -
    have "(map_of modified k = None) = (k = key \<and> map_of modified key = None)"
      if "(k, v) \<in> set original" for k v
    proof (cases "k = key")
      case True
      then show ?thesis by simp
    next
      case False
      from that have "map_of original k \<noteq> None"
        by (metis map_of_eq_None_iff image_eqI fst_conv)
      with False assms(2) show ?thesis by simp
    qed
    then have "filter (\<lambda>(k, v). map_of modified k = None) original =
               filter (\<lambda>(k, v). k = key \<and> map_of modified key = None) original"
      by (intro filter_cong) auto
    then show ?thesis by (auto simp: case_prod_unfold)
  qed
  have one: "filter (\<lambda>(k, v). k = key) original =
             (case map_of original key of None \<Rightarrow> [] | Some v \<Rightarrow> [(key, v)])"
    using assms(1)
  proof (induction original)
    case Nil
    then show ?case by simp
  next
    case (Cons e original)
    obtain k v where e: "e = (k, v)" by (cases e)
    show ?case
    proof (cases "k = key")
      case True
      with Cons.prems e have "key \<notin> fst ` set original" by auto
      then have "filter (\<lambda>(k, v). k = key) original = []"
        by (force simp: filter_empty_conv)
      with e True show ?thesis by simp
    next
      case False
      with Cons e show ?thesis by simp
    qed
  qed
  show ?thesis
    by (auto simp: deletions_def keep one split: option.splits)
qed

lemma deletions_none:
  "\<forall>(k, v) \<in> set original. map_of modified k \<noteq> None \<Longrightarrow> deletions original modified = []"
  by (auto simp: deletions_def filter_empty_conv)

lemma map_of_filter_other:
  "k \<noteq> key \<Longrightarrow> map_of (filter (\<lambda>(k', v). k' \<noteq> key) current) k = map_of current k"
  by (induction current) auto

lemma map_of_replace_other:
  "k \<noteq> key \<Longrightarrow>
   map_of (map (\<lambda>(k', v). if k' = key then (k', f) else (k', v)) current) k = map_of current k"
  by (induction current) auto

lemma map_of_replace_same:
  "map_of current key = Some u \<Longrightarrow>
   map_of (map (\<lambda>(k', v). if k' = key then (k', f) else (k', v)) current) key = Some f"
  by (induction current) (auto split: if_splits)

lemma applyFields_one_other:
  "k \<noteq> key \<Longrightarrow> map_of (applyFields current [(key, p)]) k = map_of current k"
  by (cases "map_of current key")
     (auto simp: map_of_filter_other map_of_replace_other map_add_def split: option.splits)

lemma applyFields_one_nested:
  "map_of current key = Some (Obj currentFields) \<Longrightarrow>
   map_of (applyFields current [(key, Obj patchFields)]) key
     = Some (Obj (applyFields currentFields patchFields))"
  by (simp add: map_of_replace_same)

lemma nested_patch_shape:
  assumes "distinct (map fst original)" "distinct (map fst modified)"
      and "\<forall>k. k \<noteq> key \<longrightarrow> map_of modified k = map_of original k"
  shows "diffFields original modified @ deletions original modified = [] \<or>
         (\<exists>a. diffFields original modified @ deletions original modified = [(key, a)])"
proof (cases "map_of modified key")
  case None
  from diffFields_one_key [OF assms(2) entries_agree [OF assms(2,3)]] None
  have "diffFields original modified = []" by simp
  then show ?thesis
    by (simp add: deletions_one_key [OF assms(1,3)] None)
next
  case (Some v)
  from diffFields_one_key [OF assms(2) entries_agree [OF assms(2,3)]] Some
  have "diffFields original modified = diffFields original [(key, v)]" by simp
  moreover have "deletions original modified = []"
    by (simp add: deletions_one_key [OF assms(1,3)] Some)
  ultimately show ?thesis
    using diffFields_singleton_shape [of original key v] by simp
qed

lemma exampleNodes_differ: "exampleOldNode \<noteq> exampleNewNode"
  by (simp add: exampleOldNode_def exampleNewNode_def exampleMeta_def)

lemma example_GetPatchBytes:
  "GetPatchBytes c
     (MarshalNode (exampleObjectJson
        [(exampleOldNode, exampleOldNodeDoc), (exampleNewNode, exampleNewNodeDoc)] []))
     ''node-1'' exampleOldNode exampleNewNode emptyNode = Inr examplePatch"
  by (simp add: GetPatchBytes_def exampleObjectJson_def exampleNodes_differ [symmetric]
        CreateTwoWayMergePatch_def exampleOldNodeDoc_def exampleNewNodeDoc_def examplePatch_def
        deletions_def)

lemma PatchPodMetadata_requests:
  "GetPatchBytes c (MarshalPod js) podName oldPod newPod emptyPod = Inr patchBytes \<Longrightarrow>
   snd (PatchPodMetadata js c podName oldPod newPod served)
     = served @ [PodsPatch (Namespace (Pod.ObjectMeta oldPod)) podName StrategicMergePatchType
                   patchBytes []]"
  by (simp add: PatchPodMetadata_def Pods_Patch_def split: sum.splits)

section \<open>The codec: C10, C9, C5 and C2\<close>

text \<open>
  C10. Encoding writes the reserved key and nothing else. Whatever the metadata and the
  model, the metadata that \<open>NodeInfoToAnnotation\<close> or \<open>PodInfoToAnnotation\<close> leaves behind
  agrees with the metadata it was given in every annotation key other than
  \<open>KubeDevice/DeviceInfo\<close> and in every other field. When it returns no error, the
  annotations are an allocated map: the old entries (none, when the map was nil) plus the
  serialized model under the reserved key. When it returns an error, nothing was written.
\<close>

theorem encode_writes_only_reserved_key:
  "(NodeInfoToAnnotation js meta nodeInfo = (err, metaN) \<longrightarrow>
      (\<forall>k. k \<noteq> DeviceInfoKey \<longrightarrow>
         fmlookup (entries (Annotations metaN)) k = fmlookup (entries (Annotations meta)) k) \<and>
      ObjectMeta.Name metaN = ObjectMeta.Name meta \<and> Namespace metaN = Namespace meta \<and>
      Labels metaN = Labels meta \<and>
      (err = None \<longrightarrow>
         (\<exists>info. MarshalNodeInfo js nodeInfo = Inr info \<and>
            Annotations metaN = Some (fmupd DeviceInfoKey info (entries (Annotations meta))))) \<and>
      (err \<noteq> None \<longrightarrow> metaN = meta)) \<and>
   (PodInfoToAnnotation js meta podInfo = (err', metaP) \<longrightarrow>
      (\<forall>k. k \<noteq> DeviceInfoKey \<longrightarrow>
         fmlookup (entries (Annotations metaP)) k = fmlookup (entries (Annotations meta)) k) \<and>
      ObjectMeta.Name metaP = ObjectMeta.Name meta \<and> Namespace metaP = Namespace meta \<and>
      Labels metaP = Labels meta \<and>
      (err' = None \<longrightarrow>
         (\<exists>info. MarshalPodInfo js podInfo = Inr info \<and>
            Annotations metaP = Some (fmupd DeviceInfoKey info (entries (Annotations meta))))) \<and>
      (err' \<noteq> None \<longrightarrow> metaP = meta))"
  by (cases "Annotations meta")
     (auto simp: NodeInfoToAnnotation_def PodInfoToAnnotation_def Let_def split: sum.splits)

theorem encode_writes_only_reserved_key_witness:
  "NodeInfoToAnnotation (exampleJson [(''N'', exampleNodeInfo)] [(''P'', NewPodInfo)])
     exampleMeta exampleNodeInfo
     = (None, exampleMeta\<lparr>Annotations :=
                Some (fmupd DeviceInfoKey ''N'' (fmupd ''owner'' ''team-a'' fmempty))\<rparr>) \<and>
   PodInfoToAnnotation (exampleJson [(''N'', exampleNodeInfo)] [(''P'', NewPodInfo)])
     (exampleMeta\<lparr>Annotations := None\<rparr>) NewPodInfo
     = (None, exampleMeta\<lparr>Annotations := Some (fmupd DeviceInfoKey ''P'' fmempty)\<rparr>) \<and>
   PodInfoToAnnotation (exampleJson [(''N'', exampleNodeInfo)] [(''P'', NewPodInfo)])
     exampleMeta examplePodInfo
     = (Some (JSONError ''unsupported value''), exampleMeta) \<and>
   fmlookup (entries (Annotations (exampleMeta\<lparr>Annotations :=
                Some (fmupd DeviceInfoKey ''N'' (fmupd ''owner'' ''team-a'' fmempty))\<rparr>))) ''owner''
     = fmlookup (entries (Annotations exampleMeta)) ''owner''"
proof -
  let ?js = "exampleJson [(''N'', exampleNodeInfo)] [(''P'', NewPodInfo)]"
  let ?metaN = "exampleMeta\<lparr>Annotations :=
                  Some (fmupd DeviceInfoKey ''N'' (fmupd ''owner'' ''team-a'' fmempty))\<rparr>"
  let ?metaP = "exampleMeta\<lparr>Annotations := Some (fmupd DeviceInfoKey ''P'' fmempty)\<rparr>"
  have n: "NodeInfoToAnnotation ?js exampleMeta exampleNodeInfo = (None, ?metaN)"
    by (simp add: NodeInfoToAnnotation_def exampleJson_def) (simp add: exampleMeta_def)
  have p: "PodInfoToAnnotation ?js (exampleMeta\<lparr>Annotations := None\<rparr>) NewPodInfo = (None, ?metaP)"
    by (simp add: PodInfoToAnnotation_def exampleJson_def)
  have e: "PodInfoToAnnotation ?js exampleMeta examplePodInfo
             = (Some (JSONError ''unsupported value''), exampleMeta)"
    by (simp add: PodInfoToAnnotation_def exampleJson_def examplePodInfo_def NewPodInfo_def)
  have key: "''owner'' \<noteq> DeviceInfoKey"
    by (simp add: DeviceInfoKey_def)
  from encode_writes_only_reserved_key
         [where js = ?js and meta = exampleMeta and nodeInfo = exampleNodeInfo
            and err = None and metaN = ?metaN]
       n key
  have "fmlookup (entries (Annotations ?metaN)) ''owner''
          = fmlookup (entries (Annotations exampleMeta)) ''owner''"
    by blast
  with n p e show ?thesis
    by (intro conjI)
qed

text \<open>
  C9. A reserved annotation that is present but does not deserialize is reported: when
  \<open>json.Unmarshal\<close> fails on the annotation's text, \<open>AnnotationToNodeInfo\<close> (whatever the
  existing model) and \<open>KubePodInfoToPodInfo\<close> (whatever the invalidate flag) return that
  error and no model.
\<close>

theorem malformed_annotation_is_reported:
  "(fmlookup (entries (Annotations meta)) DeviceInfoKey = Some s \<and>
    UnmarshalNodeInfo js s NewNodeInfo = Inl err \<longrightarrow>
      AnnotationToNodeInfo js meta existingNodeInfo = Inl err) \<and>
   (fmlookup (entries (Annotations (Pod.ObjectMeta kubePodInfo))) DeviceInfoKey = Some s' \<and>
    UnmarshalPodInfo js s' NewPodInfo = Inl err' \<longrightarrow>
      KubePodInfoToPodInfo js kubePodInfo invalidate = Inl err')"
  by (simp add: AnnotationToNodeInfo_def KubePodInfoToPodInfo_def
        decodeNodeInfo_present decodePodInfo_present)

theorem malformed_annotation_is_reported_witness:
  "AnnotationToNodeInfo (exampleJson [(exampleNodeText, exampleNodeInfo)] [(''{}'', NewPodInfo)])
     (exampleMeta\<lparr>Annotations := Some (fmupd DeviceInfoKey ''{name:'' fmempty)\<rparr>) None
     = Inl (JSONError ''invalid character'') \<and>
   KubePodInfoToPodInfo (exampleJson [(exampleNodeText, exampleNodeInfo)] [(''{}'', NewPodInfo)])
     \<lparr>Pod.ObjectMeta = exampleMeta\<lparr>Annotations := Some (fmupd DeviceInfoKey ''{name:'' fmempty)\<rparr>,
      Spec = \<lparr>PodSpec.NodeName = [], PodSpec.InitContainers = [], Containers = []\<rparr>,
      Status = \<lparr>Phase = ''Pending''\<rparr>\<rparr> True
     = Inl (JSONError ''invalid character'')"
  using malformed_annotation_is_reported
    [where js = "exampleJson [(exampleNodeText, exampleNodeInfo)] [(''{}'', NewPodInfo)]"
       and meta = "exampleMeta\<lparr>Annotations := Some (fmupd DeviceInfoKey ''{name:'' fmempty)\<rparr>"
       and s = "''{name:''" and err = "JSONError ''invalid character''"
       and existingNodeInfo = None
       and kubePodInfo = "\<lparr>Pod.ObjectMeta = exampleMeta\<lparr>Annotations := Some (fmupd DeviceInfoKey ''{name:'' fmempty)\<rparr>,
      Spec = \<lparr>PodSpec.NodeName = [], PodSpec.InitContainers = [], Containers = []\<rparr>,
      Status = \<lparr>Phase = ''Pending''\<rparr>\<rparr>"
       and s' = "''{name:''" and err' = "JSONError ''invalid character''" and invalidate = True]
  by (simp add: exampleJson_def exampleNodeText_def)

text \<open>
  C5 (as amended). When the annotations are nil or lack the reserved key, decoding fails
  in neither decoder and returns the model that reconciliation makes of the fresh empty
  one, which is not the empty model itself. \<open>AnnotationToNodeInfo\<close> with no existing
  model returns the new node model with its name set to the name of the object.
  \<open>KubePodInfoToPodInfo\<close> returns the new pod model with its name set to the name of the
  pod and, in each of its two container maps, exactly one entry for every container name
  of the live spec; such an entry is the new container model except that \<open>KubeRequests\<close>
  holds the requests a container of that name declares. All scheduler-private fields
  (\<open>Used\<close>, \<open>NodeName\<close>, \<open>Requests\<close>, \<open>DevRequests\<close>, \<open>AllocateFrom\<close>) come out empty.
\<close>

theorem missing_annotation_decodes_fresh:
  "(fmlookup (entries (Annotations meta)) DeviceInfoKey = None \<longrightarrow>
      AnnotationToNodeInfo js meta None
        = Inr (NewNodeInfo\<lparr>NodeInfo.Name := ObjectMeta.Name meta\<rparr>)) \<and>
   (fmlookup (entries (Annotations (Pod.ObjectMeta kubePodInfo))) DeviceInfoKey = None \<longrightarrow>
      (\<exists>ic rc.
         KubePodInfoToPodInfo js kubePodInfo invalidate
           = Inr (NewPodInfo\<lparr>PodInfo.Name := ObjectMeta.Name (Pod.ObjectMeta kubePodInfo),
                    PodInfo.InitContainers := Some ic, RunningContainers := Some rc\<rparr>) \<and>
         fmdom' ic = Container.Name ` set (PodSpec.InitContainers (Spec kubePodInfo)) \<and>
         (\<forall>k cont. fmlookup ic k = Some cont \<longrightarrow>
            (\<exists>c \<in> set (PodSpec.InitContainers (Spec kubePodInfo)). Container.Name c = k \<and>
               cont = NewContainerInfo\<lparr>KubeRequests :=
                  Some (fmmap Value (entries (ResourceRequirements.Requests (Resources c))))\<rparr>)) \<and>
         fmdom' rc = Container.Name ` set (Containers (Spec kubePodInfo)) \<and>
         (\<forall>k cont. fmlookup rc k = Some cont \<longrightarrow>
            (\<exists>c \<in> set (Containers (Spec kubePodInfo)). Container.Name c = k \<and>
               cont = NewContainerInfo\<lparr>KubeRequests :=
                  Some (fmmap Value (entries (ResourceRequirements.Requests (Resources c))))\<rparr>))))"
proof (intro conjI impI)
  assume "fmlookup (entries (Annotations meta)) DeviceInfoKey = None"
  then show "AnnotationToNodeInfo js meta None
               = Inr (NewNodeInfo\<lparr>NodeInfo.Name := ObjectMeta.Name meta\<rparr>)"
    by (simp add: AnnotationToNodeInfo_def decodeNodeInfo_absent NewNodeInfo_def)
next
  assume absent: "fmlookup (entries (Annotations (Pod.ObjectMeta kubePodInfo))) DeviceInfoKey = None"
  from fresh_containers [of "PodSpec.InitContainers (Spec kubePodInfo)" invalidate]
  obtain ic where ic:
    "addContainersToPodInfo (Some fmempty) (PodSpec.InitContainers (Spec kubePodInfo)) invalidate
       = Inr (Some ic)"
    "fmdom' ic = Container.Name ` set (PodSpec.InitContainers (Spec kubePodInfo))"
    "\<forall>k cont. fmlookup ic k = Some cont \<longrightarrow>
       (\<exists>c \<in> set (PodSpec.InitContainers (Spec kubePodInfo)). Container.Name c = k \<and>
          cont = NewContainerInfo\<lparr>KubeRequests :=
             Some (fmmap Value (entries (ResourceRequirements.Requests (Resources c))))\<rparr>)"
    by blast
  from fresh_containers [of "Containers (Spec kubePodInfo)" invalidate]
  obtain rc where rc:
    "addContainersToPodInfo (Some fmempty) (Containers (Spec kubePodInfo)) invalidate
       = Inr (Some rc)"
    "fmdom' rc = Container.Name ` set (Containers (Spec kubePodInfo))"
    "\<forall>k cont. fmlookup rc k = Some cont \<longrightarrow>
       (\<exists>c \<in> set (Containers (Spec kubePodInfo)). Container.Name c = k \<and>
          cont = NewContainerInfo\<lparr>KubeRequests :=
             Some (fmmap Value (entries (ResourceRequirements.Requests (Resources c))))\<rparr>)"
    by blast
  have "KubePodInfoToPodInfo js kubePodInfo invalidate
           = Inr (NewPodInfo\<lparr>PodInfo.Name := ObjectMeta.Name (Pod.ObjectMeta kubePodInfo),
                    PodInfo.InitContainers := Some ic, RunningContainers := Some rc\<rparr>)"
    by (simp add: KubePodInfoToPodInfo_Inr decodePodInfo_absent [OF absent] ic(1) rc(1)
          NewPodInfo_def)
  with ic(2,3) rc(2,3)
  show "\<exists>ic rc.
         KubePodInfoToPodInfo js kubePodInfo invalidate
           = Inr (NewPodInfo\<lparr>PodInfo.Name := ObjectMeta.Name (Pod.ObjectMeta kubePodInfo),
                    PodInfo.InitContainers := Some ic, RunningContainers := Some rc\<rparr>) \<and>
         fmdom' ic = Container.Name ` set (PodSpec.InitContainers (Spec kubePodInfo)) \<and>
         (\<forall>k cont. fmlookup ic k = Some cont \<longrightarrow>
            (\<exists>c \<in> set (PodSpec.InitContainers (Spec kubePodInfo)). Container.Name c = k \<and>
               cont = NewContainerInfo\<lparr>KubeRequests :=
                  Some (fmmap Value (entries (ResourceRequirements.Requests (Resources c))))\<rparr>)) \<and>
         fmdom' rc = Container.Name ` set (Containers (Spec kubePodInfo)) \<and>
         (\<forall>k cont. fmlookup rc k = Some cont \<longrightarrow>
            (\<exists>c \<in> set (Containers (Spec kubePodInfo)). Container.Name c = k \<and>
               cont = NewContainerInfo\<lparr>KubeRequests :=
                  Some (fmmap Value (entries (ResourceRequirements.Requests (Resources c))))\<rparr>))"
    by blast
qed

theorem missing_annotation_decodes_fresh_witness:
  "fmlookup (entries (Annotations exampleMeta)) DeviceInfoKey = None \<and>
   AnnotationToNodeInfo (exampleJson [] []) exampleMeta None
     = Inr (NewNodeInfo\<lparr>NodeInfo.Name := ''node-1''\<rparr>) \<and>
   fmlookup (entries (Annotations (Pod.ObjectMeta exampleBarePod))) DeviceInfoKey = None \<and>
   (\<exists>ic rc. KubePodInfoToPodInfo (exampleJson [] []) exampleBarePod True
           = Inr (NewPodInfo\<lparr>PodInfo.Name := ''pod-1'', PodInfo.InitContainers := Some ic,
                    RunningContainers := Some rc\<rparr>) \<and>
         fmdom' ic = {} \<and> fmdom' rc = {''main''})"
proof -
  note fresh = missing_annotation_decodes_fresh
    [where js = "exampleJson [] []" and meta = exampleMeta and kubePodInfo = exampleBarePod
       and invalidate = True]
  have n: "fmlookup (entries (Annotations exampleMeta)) DeviceInfoKey = None"
    by (simp add: exampleMeta_def DeviceInfoKey_def)
  have p: "fmlookup (entries (Annotations (Pod.ObjectMeta exampleBarePod))) DeviceInfoKey = None"
    by (simp add: exampleBarePod_def exampleMeta_def DeviceInfoKey_def)
  have name: "ObjectMeta.Name exampleMeta = ''node-1''"
    "ObjectMeta.Name (Pod.ObjectMeta exampleBarePod) = ''pod-1''"
    by (simp_all add: exampleMeta_def exampleBarePod_def)
  have conts: "Container.Name ` set (PodSpec.InitContainers (Spec exampleBarePod)) = {}"
    "Container.Name ` set (Containers (Spec exampleBarePod)) = {''main''}"
    by (simp_all add: exampleBarePod_def examplePod_def)
  from fresh [THEN conjunct1, THEN mp, OF n]
  have node: "AnnotationToNodeInfo (exampleJson [] []) exampleMeta None
                = Inr (NewNodeInfo\<lparr>NodeInfo.Name := ''node-1''\<rparr>)"
    by (simp only: name)
  have pod: "\<exists>ic rc. KubePodInfoToPodInfo (exampleJson [] []) exampleBarePod True
           = Inr (NewPodInfo\<lparr>PodInfo.Name := ''pod-1'', PodInfo.InitContainers := Some ic,
                    RunningContainers := Some rc\<rparr>) \<and>
         fmdom' ic = {} \<and> fmdom' rc = {''main''}"
    using fresh [THEN conjunct2, THEN mp, OF p] unfolding name conts
    by (elim exE conjE) (intro exI conjI; assumption)
  from n p node pod show ?thesis
    by (intro conjI)
qed

text \<open>
  C5, counterexample. The claim as stated fails for a pod without annotations whose spec declares the
  container \<open>main\<close>: the returned model holds an entry for \<open>main\<close> and the pod's name.
\<close>

theorem missing_annotation_counterexample:
  "fmlookup (entries (Annotations (Pod.ObjectMeta exampleBarePod))) DeviceInfoKey = None \<and>
   KubePodInfoToPodInfo (exampleJson [] []) exampleBarePod False = Inr exampleFresh \<and>
   exampleFresh \<noteq> NewPodInfo"
  by (simp add: reconcile_eval exampleJson_def exampleBarePod_def examplePod_def exampleMeta_def
        exampleFresh_def NewPodInfo_def DeviceInfoKey_def)

text \<open>
  C2 (as amended). Decoding what was encoded gives the model back when the codec carries
  what the decoder does not restore and reconciliation finds nothing to change. For a node
  model the decoder restores nothing but a blank name: the model read back from the text
  has the capacity, the allocatable resources and the usage of the model written, and its
  name is the name of the model written or, if it is blank, the model written bears the
  name of the object. For a pod model, with the invalidate flag set or not: the two
  container maps read back from the text are \<open>carried\<close> and, without invalidation, so is
  \<open>NodeName\<close>; the model's name is the name of the pod; both container maps are \<open>settled\<close>
  with respect to the containers that the live spec declares; and with invalidation the
  model's \<open>NodeName\<close> is empty.
\<close>

theorem roundtrip_of_reconciled_models:
  "(MarshalNodeInfo js nodeInfo = Inr nodeInfoStr \<and>
    UnmarshalNodeInfo js nodeInfoStr NewNodeInfo = Inr decodedN \<and>
    KubeCap decodedN = KubeCap nodeInfo \<and> KubeAlloc decodedN = KubeAlloc nodeInfo \<and>
    Used decodedN = Used nodeInfo \<and>
    (if length (TrimSpace (NodeInfo.Name decodedN)) = 0 then ObjectMeta.Name meta
     else NodeInfo.Name decodedN) = NodeInfo.Name nodeInfo \<and>
    NodeInfoToAnnotation js meta nodeInfo = (None, metaN) \<longrightarrow>
      AnnotationToNodeInfo js metaN None = Inr nodeInfo) \<and>
   (MarshalPodInfo js podInfo = Inr podInfoStr \<and>
    UnmarshalPodInfo js podInfoStr NewPodInfo = Inr decoded \<and>
    carried invalidate (PodSpec.InitContainers (Spec kubePodInfo))
      (PodInfo.InitContainers decoded) (PodInfo.InitContainers podInfo) \<and>
    carried invalidate (Containers (Spec kubePodInfo))
      (RunningContainers decoded) (RunningContainers podInfo) \<and>
    (\<not> invalidate \<longrightarrow> PodInfo.NodeName decoded = PodInfo.NodeName podInfo) \<and>
    PodInfo.Name podInfo = ObjectMeta.Name (Pod.ObjectMeta kubePodInfo) \<and>
    (invalidate \<longrightarrow> PodInfo.NodeName podInfo = []) \<and>
    settled invalidate (PodSpec.InitContainers (Spec kubePodInfo)) (PodInfo.InitContainers podInfo) \<and>
    settled invalidate (Containers (Spec kubePodInfo)) (RunningContainers podInfo) \<and>
    PodInfoToAnnotation js (Pod.ObjectMeta kubePodInfo) podInfo = (None, metaP) \<longrightarrow>
      KubePodInfoToPodInfo js (kubePodInfo\<lparr>Pod.ObjectMeta := metaP\<rparr>) invalidate = Inr podInfo)"
proof (intro conjI impI; elim conjE)
  assume m: "MarshalNodeInfo js nodeInfo = Inr nodeInfoStr"
    and u: "UnmarshalNodeInfo js nodeInfoStr NewNodeInfo = Inr decodedN"
    and fields: "KubeCap decodedN = KubeCap nodeInfo" "KubeAlloc decodedN = KubeAlloc nodeInfo"
      "Used decodedN = Used nodeInfo"
    and name: "(if length (TrimSpace (NodeInfo.Name decodedN)) = 0 then ObjectMeta.Name meta
                else NodeInfo.Name decodedN) = NodeInfo.Name nodeInfo"
    and enc: "NodeInfoToAnnotation js meta nodeInfo = (None, metaN)"
  from enc m have
    "fmlookup (entries (Annotations metaN)) DeviceInfoKey = Some nodeInfoStr"
    "ObjectMeta.Name metaN = ObjectMeta.Name meta"
    by (cases "Annotations meta"; auto simp: NodeInfoToAnnotation_def Let_def)+
  with u have "AnnotationToNodeInfo js metaN None =
      Inr (if length (TrimSpace (NodeInfo.Name decodedN)) = 0
           then decodedN\<lparr>NodeInfo.Name := ObjectMeta.Name meta\<rparr> else decodedN)"
    by (simp add: AnnotationToNodeInfo_def decodeNodeInfo_present Let_def)
  moreover from fields name have
    "(if length (TrimSpace (NodeInfo.Name decodedN)) = 0
      then decodedN\<lparr>NodeInfo.Name := ObjectMeta.Name meta\<rparr> else decodedN) = nodeInfo"
    by (cases decodedN; cases nodeInfo) (simp split: if_splits)
  ultimately show "AnnotationToNodeInfo js metaN None = Inr nodeInfo"
    by simp
next
  assume m: "MarshalPodInfo js podInfo = Inr podInfoStr"
    and u: "UnmarshalPodInfo js podInfoStr NewPodInfo = Inr decoded"
    and ci: "carried invalidate (PodSpec.InitContainers (Spec kubePodInfo))
               (PodInfo.InitContainers decoded) (PodInfo.InitContainers podInfo)"
    and cr: "carried invalidate (Containers (Spec kubePodInfo))
               (RunningContainers decoded) (RunningContainers podInfo)"
    and node: "\<not> invalidate \<longrightarrow> PodInfo.NodeName decoded = PodInfo.NodeName podInfo"
    and name: "PodInfo.Name podInfo = ObjectMeta.Name (Pod.ObjectMeta kubePodInfo)"
    and cleared: "invalidate \<longrightarrow> PodInfo.NodeName podInfo = []"
    and si: "settled invalidate (PodSpec.InitContainers (Spec kubePodInfo))
               (PodInfo.InitContainers podInfo)"
    and sr: "settled invalidate (Containers (Spec kubePodInfo)) (RunningContainers podInfo)"
    and enc: "PodInfoToAnnotation js (Pod.ObjectMeta kubePodInfo) podInfo = (None, metaP)"
  from annotation_written [OF enc m u]
  have again: "decodePodInfo js metaP = Inr decoded"
    and name': "ObjectMeta.Name metaP = ObjectMeta.Name (Pod.ObjectMeta kubePodInfo)"
    by simp_all
  note ic = carried_settled [OF ci si] and rc = carried_settled [OF cr sr]
  have "podInfo = \<lparr>PodInfo.Name = ObjectMeta.Name (Pod.ObjectMeta kubePodInfo),
                   PodInfo.NodeName = (if invalidate then [] else PodInfo.NodeName decoded),
                   PodInfo.InitContainers = PodInfo.InitContainers podInfo,
                   RunningContainers = RunningContainers podInfo\<rparr>"
    using node name cleared by (cases podInfo) auto
  then show "KubePodInfoToPodInfo js (kubePodInfo\<lparr>Pod.ObjectMeta := metaP\<rparr>) invalidate
               = Inr podInfo"
    unfolding KubePodInfoToPodInfo_Inr
    by (intro exI [of _ decoded] exI [of _ "PodInfo.InitContainers podInfo"]
          exI [of _ "RunningContainers podInfo"]) (simp add: again name' ic rc)
qed

theorem roundtrip_of_reconciled_models_witness:
  "NodeInfoToAnnotation exampleCodec exampleMeta exampleNodeInfo
     = (None, exampleMeta\<lparr>Annotations :=
              Some (fmupd DeviceInfoKey exampleNodeText (fmupd ''owner'' ''team-a'' fmempty))\<rparr>) \<and>
   AnnotationToNodeInfo exampleCodec
     (exampleMeta\<lparr>Annotations :=
              Some (fmupd DeviceInfoKey exampleNodeText (fmupd ''owner'' ''team-a'' fmempty))\<rparr>)
     None = Inr exampleNodeInfo \<and>
   PodInfoToAnnotation exampleCodec (Pod.ObjectMeta examplePod) exampleSettled
     = (None, (Pod.ObjectMeta examplePod)\<lparr>Annotations :=
              Some (fmupd DeviceInfoKey exampleSettledText fmempty)\<rparr>) \<and>
   UnmarshalPodInfo exampleCodec exampleSettledText NewPodInfo = Inr exampleSettledDecoded \<and>
   KubePodInfoToPodInfo exampleCodec
     (examplePod\<lparr>Pod.ObjectMeta := (Pod.ObjectMeta examplePod)\<lparr>Annotations :=
              Some (fmupd DeviceInfoKey exampleSettledText fmempty)\<rparr>\<rparr>)
     False = Inr exampleSettled \<and>
   PodInfoToAnnotation exampleCodec (Pod.ObjectMeta examplePod) exampleInvalidated
     = (None, (Pod.ObjectMeta examplePod)\<lparr>Annotations :=
              Some (fmupd DeviceInfoKey exampleInvalidatedText fmempty)\<rparr>) \<and>
   UnmarshalPodInfo exampleCodec exampleInvalidatedText NewPodInfo = Inr exampleInvalidatedDecoded \<and>
   KubePodInfoToPodInfo exampleCodec
     (examplePod\<lparr>Pod.ObjectMeta := (Pod.ObjectMeta examplePod)\<lparr>Annotations :=
              Some (fmupd DeviceInfoKey exampleInvalidatedText fmempty)\<rparr>\<rparr>)
     True = Inr exampleInvalidated"
proof -
  let ?metaN = "exampleMeta\<lparr>Annotations :=
              Some (fmupd DeviceInfoKey exampleNodeText (fmupd ''owner'' ''team-a'' fmempty))\<rparr>"
  let ?metaS = "(Pod.ObjectMeta examplePod)\<lparr>Annotations :=
              Some (fmupd DeviceInfoKey exampleSettledText fmempty)\<rparr>"
  let ?metaI = "(Pod.ObjectMeta examplePod)\<lparr>Annotations :=
              Some (fmupd DeviceInfoKey exampleInvalidatedText fmempty)\<rparr>"
  note settledRun = roundtrip_of_reconciled_models
    [where js = exampleCodec and nodeInfo = exampleNodeInfo and nodeInfoStr = exampleNodeText
       and decodedN = exampleNodeInfo and meta = exampleMeta and metaN = ?metaN
       and podInfo = exampleSettled and podInfoStr = exampleSettledText
       and decoded = exampleSettledDecoded and invalidate = False
       and kubePodInfo = examplePod and metaP = ?metaS]
  note invalidatedRun = roundtrip_of_reconciled_models
    [where js = exampleCodec and podInfo = exampleInvalidated
       and podInfoStr = exampleInvalidatedText
       and decoded = exampleInvalidatedDecoded and invalidate = True
       and kubePodInfo = examplePod and metaP = ?metaI, THEN conjunct2]
  have hn:
    "MarshalNodeInfo exampleCodec exampleNodeInfo = Inr exampleNodeText \<and>
     UnmarshalNodeInfo exampleCodec exampleNodeText NewNodeInfo = Inr exampleNodeInfo \<and>
     KubeCap exampleNodeInfo = KubeCap exampleNodeInfo \<and>
     KubeAlloc exampleNodeInfo = KubeAlloc exampleNodeInfo \<and>
     Used exampleNodeInfo = Used exampleNodeInfo \<and>
     (if length (TrimSpace (NodeInfo.Name exampleNodeInfo)) = 0 then ObjectMeta.Name exampleMeta
      else NodeInfo.Name exampleNodeInfo) = NodeInfo.Name exampleNodeInfo \<and>
     NodeInfoToAnnotation exampleCodec exampleMeta exampleNodeInfo = (None, ?metaN)"
    by (simp add: exampleCodec_marshal exampleCodec_unmarshal exampleCodec_encode_node)
       (simp add: exampleNodeInfo_def TrimSpace_eval)
  have names: "PodInfo.NodeName exampleSettledDecoded = PodInfo.NodeName exampleSettled"
    "PodInfo.Name exampleSettled = ObjectMeta.Name (Pod.ObjectMeta examplePod)"
    "PodInfo.Name exampleInvalidated = ObjectMeta.Name (Pod.ObjectMeta examplePod)"
    "PodInfo.NodeName exampleInvalidated = []"
    by (simp_all add: exampleSettledDecoded_def exampleSettled_def examplePodInfo_def
          exampleInvalidated_def examplePod_def)
  have hs:
    "MarshalPodInfo exampleCodec exampleSettled = Inr exampleSettledText \<and>
     UnmarshalPodInfo exampleCodec exampleSettledText NewPodInfo = Inr exampleSettledDecoded \<and>
     carried False (PodSpec.InitContainers (Spec examplePod))
       (PodInfo.InitContainers exampleSettledDecoded) (PodInfo.InitContainers exampleSettled) \<and>
     carried False (Containers (Spec examplePod))
       (RunningContainers exampleSettledDecoded) (RunningContainers exampleSettled) \<and>
     (\<not> False \<longrightarrow> PodInfo.NodeName exampleSettledDecoded = PodInfo.NodeName exampleSettled) \<and>
     PodInfo.Name exampleSettled = ObjectMeta.Name (Pod.ObjectMeta examplePod) \<and>
     (False \<longrightarrow> PodInfo.NodeName exampleSettled = []) \<and>
     settled False (PodSpec.InitContainers (Spec examplePod)) (PodInfo.InitContainers exampleSettled) \<and>
     settled False (Containers (Spec examplePod)) (RunningContainers exampleSettled) \<and>
     PodInfoToAnnotation exampleCodec (Pod.ObjectMeta examplePod) exampleSettled = (None, ?metaS)"
    by (simp add: exampleCodec_marshal exampleCodec_unmarshal example_carried example_settled
          names exampleCodec_encode)
  have hi:
    "MarshalPodInfo exampleCodec exampleInvalidated = Inr exampleInvalidatedText \<and>
     UnmarshalPodInfo exampleCodec exampleInvalidatedText NewPodInfo = Inr exampleInvalidatedDecoded \<and>
     carried True (PodSpec.InitContainers (Spec examplePod))
       (PodInfo.InitContainers exampleInvalidatedDecoded) (PodInfo.InitContainers exampleInvalidated) \<and>
     carried True (Containers (Spec examplePod))
       (RunningContainers exampleInvalidatedDecoded) (RunningContainers exampleInvalidated) \<and>
     (\<not> True \<longrightarrow> PodInfo.NodeName exampleInvalidatedDecoded = PodInfo.NodeName exampleInvalidated) \<and>
     PodInfo.Name exampleInvalidated = ObjectMeta.Name (Pod.ObjectMeta examplePod) \<and>
     (True \<longrightarrow> PodInfo.NodeName exampleInvalidated = []) \<and>
     settled True (PodSpec.InitContainers (Spec examplePod)) (PodInfo.InitContainers exampleInvalidated) \<and>
     settled True (Containers (Spec examplePod)) (RunningContainers exampleInvalidated) \<and>
     PodInfoToAnnotation exampleCodec (Pod.ObjectMeta examplePod) exampleInvalidated = (None, ?metaI)"
    by (simp add: exampleCodec_marshal exampleCodec_unmarshal example_carried example_settled
          names exampleCodec_encode)
  from exampleCodec_encode_node(1) settledRun [THEN conjunct1, THEN mp, OF hn]
    exampleCodec_encode(2) exampleCodec_unmarshal(2) [of NewPodInfo]
    settledRun [THEN conjunct2, THEN mp, OF hs]
    exampleCodec_encode(1) exampleCodec_unmarshal(1) [of NewPodInfo]
    invalidatedRun [THEN mp, OF hi]
  show ?thesis
    by (intro conjI)
qed

text \<open>
  C2, counterexample. The claim as stated fails with the example codec in each of these cases. The new,
  empty node model on an object named \<open>node-1\<close> comes back named \<open>node-1\<close>. The new, empty
  pod model on a pod named \<open>pod-1\<close> that declares no container comes back named \<open>pod-1\<close>.
  The empty pod model named \<open>pod-1\<close> on the pod \<open>examplePod\<close>, which declares the container
  \<open>main\<close>, comes back with an entry for \<open>main\<close>. The model \<open>exampleSettled\<close> of \<open>examplePod\<close>,
  decoded with the invalidate flag, comes back without its assignment. The same model on a
  pod that does not declare \<open>main\<close> comes back without the \<open>KubeRequests\<close> of \<open>main\<close>, which
  the codec does not carry and the decoder restores for declared containers only.
\<close>

theorem roundtrip_counterexample:
  "NodeInfoToAnnotation exampleCodec exampleMeta NewNodeInfo
     = (None, exampleMeta\<lparr>Annotations :=
              Some (fmupd DeviceInfoKey ''{}'' (fmupd ''owner'' ''team-a'' fmempty))\<rparr>) \<and>
   AnnotationToNodeInfo exampleCodec
       (exampleMeta\<lparr>Annotations :=
              Some (fmupd DeviceInfoKey ''{}'' (fmupd ''owner'' ''team-a'' fmempty))\<rparr>) None
     = Inr (NewNodeInfo\<lparr>NodeInfo.Name := ''node-1''\<rparr>) \<and>
   NewNodeInfo\<lparr>NodeInfo.Name := ''node-1''\<rparr> \<noteq> NewNodeInfo \<and>
   PodInfoToAnnotation exampleCodec (Pod.ObjectMeta exampleEmptyPod) NewPodInfo
     = (None, (Pod.ObjectMeta examplePod)\<lparr>Annotations :=
              Some (fmupd DeviceInfoKey ''{}'' fmempty)\<rparr>) \<and>
   KubePodInfoToPodInfo exampleCodec
       (exampleEmptyPod\<lparr>Pod.ObjectMeta := (Pod.ObjectMeta examplePod)\<lparr>Annotations :=
              Some (fmupd DeviceInfoKey ''{}'' fmempty)\<rparr>\<rparr>) False
     = Inr exampleNamed \<and>
   exampleNamed \<noteq> NewPodInfo \<and>
   PodInfoToAnnotation exampleCodec (Pod.ObjectMeta examplePod) exampleNamed
     = (None, (Pod.ObjectMeta examplePod)\<lparr>Annotations :=
              Some (fmupd DeviceInfoKey exampleNamedText fmempty)\<rparr>) \<and>
   KubePodInfoToPodInfo exampleCodec
       (examplePod\<lparr>Pod.ObjectMeta := (Pod.ObjectMeta examplePod)\<lparr>Annotations :=
              Some (fmupd DeviceInfoKey exampleNamedText fmempty)\<rparr>\<rparr>) False
     = Inr exampleFresh \<and>
   exampleFresh \<noteq> exampleNamed \<and>
   PodInfoToAnnotation exampleCodec (Pod.ObjectMeta examplePod) exampleSettled
     = (None, (Pod.ObjectMeta examplePod)\<lparr>Annotations :=
              Some (fmupd DeviceInfoKey exampleSettledText fmempty)\<rparr>) \<and>
   KubePodInfoToPodInfo exampleCodec
       (examplePod\<lparr>Pod.ObjectMeta := (Pod.ObjectMeta examplePod)\<lparr>Annotations :=
              Some (fmupd DeviceInfoKey exampleSettledText fmempty)\<rparr>\<rparr>) True
     = Inr exampleInvalidated \<and>
   exampleInvalidated \<noteq> exampleSettled \<and>
   PodInfoToAnnotation exampleCodec (Pod.ObjectMeta exampleEmptyPod) exampleSettled
     = (None, (Pod.ObjectMeta examplePod)\<lparr>Annotations :=
              Some (fmupd DeviceInfoKey exampleSettledText fmempty)\<rparr>) \<and>
   KubePodInfoToPodInfo exampleCodec
       (exampleEmptyPod\<lparr>Pod.ObjectMeta := (Pod.ObjectMeta examplePod)\<lparr>Annotations :=
              Some (fmupd DeviceInfoKey exampleSettledText fmempty)\<rparr>\<rparr>) False
     = Inr exampleSettledDecoded \<and>
   exampleSettledDecoded \<noteq> exampleSettled"
proof -
  have node: "AnnotationToNodeInfo exampleCodec
       (exampleMeta\<lparr>Annotations :=
              Some (fmupd DeviceInfoKey ''{}'' (fmupd ''owner'' ''team-a'' fmempty))\<rparr>) None
     = Inr (NewNodeInfo\<lparr>NodeInfo.Name := ''node-1''\<rparr>)"
    "NewNodeInfo\<lparr>NodeInfo.Name := ''node-1''\<rparr> \<noteq> NewNodeInfo"
    by (simp_all add: AnnotationToNodeInfo_def decodeNodeInfo_def exampleCodec_unmarshal
          exampleMeta_def NewNodeInfo_def)
  have enc: "PodInfoToAnnotation exampleCodec (Pod.ObjectMeta exampleEmptyPod) NewPodInfo
     = (None, (Pod.ObjectMeta examplePod)\<lparr>Annotations :=
              Some (fmupd DeviceInfoKey ''{}'' fmempty)\<rparr>)"
    "PodInfoToAnnotation exampleCodec (Pod.ObjectMeta examplePod) exampleNamed
     = (None, (Pod.ObjectMeta examplePod)\<lparr>Annotations :=
              Some (fmupd DeviceInfoKey exampleNamedText fmempty)\<rparr>)"
    "PodInfoToAnnotation exampleCodec (Pod.ObjectMeta exampleEmptyPod) exampleSettled
     = (None, (Pod.ObjectMeta examplePod)\<lparr>Annotations :=
              Some (fmupd DeviceInfoKey exampleSettledText fmempty)\<rparr>)"
    by (simp_all add: PodInfoToAnnotation_def exampleCodec_marshal)
       (simp_all add: exampleEmptyPod_def examplePod_def)
  have run: "KubePodInfoToPodInfo exampleCodec
       (exampleEmptyPod\<lparr>Pod.ObjectMeta := (Pod.ObjectMeta examplePod)\<lparr>Annotations :=
              Some (fmupd DeviceInfoKey ''{}'' fmempty)\<rparr>\<rparr>) False
     = Inr exampleNamed"
    "KubePodInfoToPodInfo exampleCodec
       (examplePod\<lparr>Pod.ObjectMeta := (Pod.ObjectMeta examplePod)\<lparr>Annotations :=
              Some (fmupd DeviceInfoKey exampleNamedText fmempty)\<rparr>\<rparr>) False
     = Inr exampleFresh"
    "KubePodInfoToPodInfo exampleCodec
       (examplePod\<lparr>Pod.ObjectMeta := (Pod.ObjectMeta examplePod)\<lparr>Annotations :=
              Some (fmupd DeviceInfoKey exampleSettledText fmempty)\<rparr>\<rparr>) True
     = Inr exampleInvalidated"
    "KubePodInfoToPodInfo exampleCodec
       (exampleEmptyPod\<lparr>Pod.ObjectMeta := (Pod.ObjectMeta examplePod)\<lparr>Annotations :=
              Some (fmupd DeviceInfoKey exampleSettledText fmempty)\<rparr>\<rparr>) False
     = Inr exampleSettledDecoded"
    by (simp_all add: reconcile_eval exampleCodec_unmarshal exampleEmptyPod_def examplePod_def
          exampleNamed_def NewPodInfo_def exampleFresh_def exampleSettledDecoded_def
          examplePodInfo_def exampleInvalidated_def)
  have differ: "exampleNamed \<noteq> NewPodInfo" "exampleFresh \<noteq> exampleNamed"
    "exampleInvalidated \<noteq> exampleSettled"
    by (simp_all add: exampleNamed_def NewPodInfo_def exampleFresh_def exampleInvalidated_def
          exampleSettled_def fmupd_not_empty)
  from exampleCodec_encode_node(2) node enc(1) run(1) differ(1) enc(2) run(2) differ(2)
    exampleCodec_encode(2) run(3) differ(3) enc(3) run(4) exampleSettled_lost
  show ?thesis
    by (intro conjI)
qed

section \<open>The reconciler: C1, C3 and C4\<close>

text \<open>
  C1. Merging the cached usage. Let the existing model be non-nil with an allocated \<open>Used\<close>
  map. Whenever \<open>AnnotationToNodeInfo\<close> returns a model, the same metadata decodes without
  the existing model too, and the returned \<open>Used\<close> maps every key of the existing \<open>Used\<close> to
  the existing value and every other key to what the fresh decode holds; name, capacity
  and allocatable are those of the fresh decode. The call does return a model whenever
  the fresh decode succeeds with an allocated \<open>Used\<close>: the decoded entries overridden by
  the existing ones.
\<close>

theorem reconcileNode_merges_existing_used:
  assumes used: "Used existing = Some used"
  shows "(\<forall>nodeInfo. AnnotationToNodeInfo js meta (Some existing) = Inr nodeInfo \<longrightarrow>
            (\<exists>decoded. AnnotationToNodeInfo js meta None = Inr decoded \<and>
               (\<forall>k. k |\<in>| fmdom used \<longrightarrow>
                  fmlookup (entries (Used nodeInfo)) k = fmlookup used k) \<and>
               (\<forall>k. k |\<notin>| fmdom used \<longrightarrow>
                  fmlookup (entries (Used nodeInfo)) k = fmlookup (entries (Used decoded)) k) \<and>
               NodeInfo.Name nodeInfo = NodeInfo.Name decoded \<and>
               KubeCap nodeInfo = KubeCap decoded \<and> KubeAlloc nodeInfo = KubeAlloc decoded)) \<and>
         (\<forall>decoded fresh. AnnotationToNodeInfo js meta None = Inr decoded \<and>
            Used decoded = Some fresh \<longrightarrow>
              AnnotationToNodeInfo js meta (Some existing)
                = Inr (decoded\<lparr>Used := Some (fresh ++\<^sub>f used)\<rparr>))"
proof (cases "decodeNodeInfo js meta")
  case (Inl err)
  then show ?thesis by (simp add: AnnotationToNodeInfo_def)
next
  case (Inr n)
  define n1 where "n1 = (if length (TrimSpace (NodeInfo.Name n)) = 0
                         then n\<lparr>NodeInfo.Name := ObjectMeta.Name meta\<rparr> else n)"
  have none: "AnnotationToNodeInfo js meta None = Inr n1"
    unfolding AnnotationToNodeInfo_def n1_def Inr Let_def by simp
  have some: "AnnotationToNodeInfo js meta (Some existing) =
                (case assignAll (Used n1) used of
                   Inl panic \<Rightarrow> Inl panic | Inr used1 \<Rightarrow> Inr (n1\<lparr>Used := used1\<rparr>))"
    unfolding AnnotationToNodeInfo_def n1_def Inr Let_def by (simp add: used)
  show ?thesis
  proof (cases "Used n1")
    case None
    then show ?thesis
      by (auto simp: none some assignAll_nil)
  next
    case (Some fresh)
    then show ?thesis
      by (auto simp: none some assignAll_allocated)
  qed
qed

theorem reconcileNode_merges_existing_used_witness:
  "Used exampleExisting = Some (fmupd ''gpu'' 3 (fmupd ''cpu'' 2 fmempty)) \<and>
   (\<exists>nodeInfo.
      AnnotationToNodeInfo (exampleJson [(exampleNodeText, exampleNodeInfo)] [])
        (exampleMeta\<lparr>Annotations := Some (fmupd DeviceInfoKey exampleNodeText fmempty)\<rparr>)
        (Some exampleExisting) = Inr nodeInfo \<and>
      fmlookup (entries (Used nodeInfo)) ''gpu'' = Some 3 \<and>
      fmlookup (entries (Used nodeInfo)) ''cpu'' = Some 2 \<and>
      fmlookup (entries (Used nodeInfo)) ''mem'' = Some 4)"
proof -
  let ?js = "exampleJson [(exampleNodeText, exampleNodeInfo)] []"
  let ?meta = "exampleMeta\<lparr>Annotations := Some (fmupd DeviceInfoKey exampleNodeText fmempty)\<rparr>"
  have u: "Used exampleExisting = Some (fmupd ''gpu'' 3 (fmupd ''cpu'' 2 fmempty))"
    by (simp add: exampleExisting_def)
  have "decodeNodeInfo ?js ?meta = Inr exampleNodeInfo"
    by (simp add: decodeNodeInfo_def exampleJson_def)
  then have d: "AnnotationToNodeInfo ?js ?meta None = Inr exampleNodeInfo"
    by (simp add: AnnotationToNodeInfo_def exampleNodeInfo_def TrimSpace_eval)
  have f: "Used exampleNodeInfo = Some (fmupd ''gpu'' 1 (fmupd ''mem'' 4 fmempty))"
    by (simp add: exampleNodeInfo_def)
  from reconcileNode_merges_existing_used [OF u, of ?js ?meta] d f
  have "AnnotationToNodeInfo ?js ?meta (Some exampleExisting) =
          Inr (exampleNodeInfo\<lparr>Used := Some (fmupd ''gpu'' 1 (fmupd ''mem'' 4 fmempty)
                  ++\<^sub>f fmupd ''gpu'' 3 (fmupd ''cpu'' 2 fmempty))\<rparr>)"
    by blast
  with u show ?thesis by simp
qed

text \<open>
  C3. Invalidation. Whenever \<open>KubePodInfoToPodInfo\<close> with the invalidate flag set returns
  a model, its \<open>NodeName\<close> is the empty string and every container in its two container
  maps has an allocated, empty \<open>AllocateFrom\<close> and a \<open>DevRequests\<close> that is an allocated
  map with exactly the entries of that container's \<open>Requests\<close>. It does return a model
  whenever the decoding step succeeds and leaves both container maps allocated.
\<close>

theorem invalidate_resets_allocation:
  "(\<forall>podInfo. KubePodInfoToPodInfo js kubePodInfo True = Inr podInfo \<longrightarrow>
      PodInfo.NodeName podInfo = [] \<and>
      (\<forall>name cont.
         fmlookup (entries (PodInfo.InitContainers podInfo)) name = Some cont \<or>
         fmlookup (entries (RunningContainers podInfo)) name = Some cont \<longrightarrow>
           AllocateFrom cont = Some fmempty \<and>
           DevRequests cont = Some (entries (ContainerInfo.Requests cont)))) \<and>
   (\<forall>decoded. decodePodInfo js (Pod.ObjectMeta kubePodInfo) = Inr decoded \<and>
      PodInfo.InitContainers decoded \<noteq> None \<and> RunningContainers decoded \<noteq> None \<longrightarrow>
        (\<exists>podInfo. KubePodInfoToPodInfo js kubePodInfo True = Inr podInfo))"
proof -
  have name: "PodInfo.NodeName podInfo = []"
    if "KubePodInfoToPodInfo js kubePodInfo True = Inr podInfo" for podInfo
    using that by (auto simp: KubePodInfoToPodInfo_Inr)
  have conts: "AllocateFrom cont = Some fmempty \<and>
               DevRequests cont = Some (entries (ContainerInfo.Requests cont))"
    if run: "KubePodInfoToPodInfo js kubePodInfo True = Inr podInfo"
    and found: "fmlookup (entries (PodInfo.InitContainers podInfo)) name = Some cont \<or>
                fmlookup (entries (RunningContainers podInfo)) name = Some cont"
    for podInfo name cont
  proof -
    from run found have "\<exists>before. cont = invalidateContainer before"
      by (auto simp: KubePodInfoToPodInfo_Inr dest: invalidated_entries)
    then show ?thesis
      by (auto simp: invalidateContainer_def)
  qed
  have returns: "\<exists>podInfo. KubePodInfoToPodInfo js kubePodInfo True = Inr podInfo"
    if d: "decodePodInfo js (Pod.ObjectMeta kubePodInfo) = Inr decoded"
    and i: "PodInfo.InitContainers decoded = Some mi" and r: "RunningContainers decoded = Some mr"
    for decoded mi mr
  proof -
    from addContainersToPodInfo_allocated [of mi "PodSpec.InitContainers (Spec kubePodInfo)" True]
    obtain ic where
      "addContainersToPodInfo (Some mi) (PodSpec.InitContainers (Spec kubePodInfo)) True = Inr ic"
      by blast
    moreover
    from addContainersToPodInfo_allocated [of mr "Containers (Spec kubePodInfo)" True]
    obtain rc where
      "addContainersToPodInfo (Some mr) (Containers (Spec kubePodInfo)) True = Inr rc"
      by blast
    ultimately show ?thesis
      using d i r by (simp add: KubePodInfoToPodInfo_Inr)
  qed
  show ?thesis
    using name conts returns by blast
qed

theorem invalidate_resets_allocation_witness:
  "KubePodInfoToPodInfo
     (exampleJson [] [(examplePodText, examplePodInfo), (exampleInvalidatedText, exampleInvalidated)])
     examplePod True = Inr exampleInvalidated \<and>
   PodInfo.NodeName exampleInvalidated = [] \<and>
   (\<exists>cont. fmlookup (entries (RunningContainers exampleInvalidated)) ''main'' = Some cont \<and>
      AllocateFrom cont = Some fmempty \<and>
      DevRequests cont = Some (fmupd ''gpu'' 2 fmempty))"
proof -
  let ?js = "exampleJson [] [(examplePodText, examplePodInfo), (exampleInvalidatedText, exampleInvalidated)]"
  have run: "KubePodInfoToPodInfo ?js examplePod True = Inr exampleInvalidated"
    by (rule examplePod_invalidated)
  obtain cont where c: "fmlookup (entries (RunningContainers exampleInvalidated)) ''main'' = Some cont"
    and r: "ContainerInfo.Requests cont = Some (fmupd ''gpu'' 2 fmempty)"
    by (simp add: exampleInvalidated_def)
  from invalidate_resets_allocation [of ?js examplePod] run c
  have "PodInfo.NodeName exampleInvalidated = [] \<and> AllocateFrom cont = Some fmempty \<and>
        DevRequests cont = Some (entries (ContainerInfo.Requests cont))"
    by blast
  with run c r show ?thesis by auto
qed



section \<open>The patch builder: C8\<close>

text \<open>
  C8. Patch minimality. Let the old and the new object serialize to objects with distinct
  field names that agree in every field except \<open>metadata\<close>, and let their \<open>metadata\<close> be
  objects with distinct field names that agree in every field except \<open>annotations\<close>. Then
  \<open>GetPatchBytes\<close> returns a patch that is empty or consists of the single field
  \<open>metadata\<close> holding the single field \<open>annotations\<close>. Applied to any object of the remote
  store, this patch leaves every field other than \<open>metadata\<close> as it is and, inside
  \<open>metadata\<close>, every field other than \<open>annotations\<close>.
\<close>

theorem patch_touches_only_annotations:
  assumes old: "marshal old = Inr (Obj originalFields)"
      and new: "marshal new = Inr (Obj modifiedFields)"
      and fields: "distinct (map fst modifiedFields)"
        "\<forall>k. k \<noteq> ''metadata'' \<longrightarrow> map_of modifiedFields k = map_of originalFields k"
      and originalMeta: "map_of originalFields ''metadata'' = Some (Obj originalMeta)"
        "distinct (map fst originalMeta)"
      and modifiedMeta: "map_of modifiedFields ''metadata'' = Some (Obj modifiedMeta)"
        "distinct (map fst modifiedMeta)"
      and meta: "\<forall>k. k \<noteq> ''annotations'' \<longrightarrow> map_of modifiedMeta k = map_of originalMeta k"
  shows "\<exists>patchFields.
           GetPatchBytes c marshal resourceName old new dataStruct = Inr (Obj patchFields) \<and>
           (patchFields = [] \<or>
            (\<exists>a. patchFields = [(''metadata'', Obj [(''annotations'', a)])])) \<and>
           (\<forall>current k. k \<noteq> ''metadata'' \<longrightarrow>
              map_of (applyFields current patchFields) k = map_of current k) \<and>
           (\<forall>current currentMeta. map_of current ''metadata'' = Some (Obj currentMeta) \<longrightarrow>
              (\<exists>patchedMeta.
                 map_of (applyFields current patchFields) ''metadata'' = Some (Obj patchedMeta) \<and>
                 (\<forall>k. k \<noteq> ''annotations'' \<longrightarrow>
                    map_of patchedMeta k = map_of currentMeta k)))"
proof -
  define patchFields where
    "patchFields = diffFields originalFields modifiedFields @ deletions originalFields modifiedFields"
  have run: "GetPatchBytes c marshal resourceName old new dataStruct = Inr (Obj patchFields)"
    by (simp add: GetPatchBytes_def old new CreateTwoWayMergePatch_def patchFields_def)
  have "map_of modifiedFields k \<noteq> None" if "(k, v) \<in> set originalFields" for k v
  proof (cases "k = ''metadata''")
    case True
    with modifiedMeta(1) show ?thesis by simp
  next
    case False
    from that have "map_of originalFields k \<noteq> None"
      by (metis map_of_eq_None_iff image_eqI fst_conv)
    with False fields(2) show ?thesis by simp
  qed
  then have "\<forall>(k, v) \<in> set originalFields. map_of modifiedFields k \<noteq> None"
    by blast
  then have "deletions originalFields modifiedFields = []"
    by (rule deletions_none)
  moreover
  from diffFields_one_key [OF fields(1) entries_agree [OF fields]] modifiedMeta(1)
  have "diffFields originalFields modifiedFields
          = diffFields originalFields [(''metadata'', Obj modifiedMeta)]"
    by simp
  ultimately have top: "patchFields = diffFields originalFields [(''metadata'', Obj modifiedMeta)]"
    by (simp add: patchFields_def)
  from nested_patch_shape [OF originalMeta(2) modifiedMeta(2) meta]
  have shape: "patchFields = [] \<or>
               (\<exists>a. patchFields = [(''metadata'', Obj [(''annotations'', a)])])"
    by (auto simp: top originalMeta(1) Let_def)
  have others: "map_of (applyFields current patchFields) k = map_of current k"
    if "k \<noteq> ''metadata''" for current k
    using shape that by (auto simp: applyFields_one_other simp del: applyFields.simps(2))
  have inside: "\<exists>patchedMeta.
                 map_of (applyFields current patchFields) ''metadata'' = Some (Obj patchedMeta) \<and>
                 (\<forall>k. k \<noteq> ''annotations'' \<longrightarrow>
                    map_of patchedMeta k = map_of currentMeta k)"
    if current: "map_of current ''metadata'' = Some (Obj currentMeta)" for current currentMeta
    using shape
  proof (elim disjE exE)
    assume "patchFields = []"
    with current show ?thesis by simp
  next
    fix a
    assume "patchFields = [(''metadata'', Obj [(''annotations'', a)])]"
    with applyFields_one_nested [OF current, of "[(''annotations'', a)]"]
    have "map_of (applyFields current patchFields) ''metadata''
            = Some (Obj (applyFields currentMeta [(''annotations'', a)]))"
      by simp
    then show ?thesis
      by (auto simp: applyFields_one_other simp del: applyFields.simps(2))
  qed
  have untouched: "\<forall>current k. k \<noteq> ''metadata'' \<longrightarrow>
              map_of (applyFields current patchFields) k = map_of current k"
    by (intro allI impI) (rule others)
  have siblings: "\<forall>current currentMeta. map_of current ''metadata'' = Some (Obj currentMeta) \<longrightarrow>
              (\<exists>patchedMeta.
                 map_of (applyFields current patchFields) ''metadata'' = Some (Obj patchedMeta) \<and>
                 (\<forall>k. k \<noteq> ''annotations'' \<longrightarrow>
                    map_of patchedMeta k = map_of currentMeta k))"
    by (intro allI impI) (rule inside)
  from run shape untouched siblings show ?thesis
    by (intro exI [of _ patchFields] conjI)
qed

theorem patch_touches_only_annotations_witness:
  "GetPatchBytes (exampleClient exampleNewNode examplePod [])
     (MarshalNode (exampleObjectJson
        [(exampleOldNode, exampleOldNodeDoc), (exampleNewNode, exampleNewNodeDoc)] []))
     ''node-1'' exampleOldNode exampleNewNode emptyNode = Inr examplePatch \<and>
   map_of (applyFields exampleRemoteFields
             [(''metadata'', Obj [(''annotations'', Obj [(DeviceInfoKey, Leaf exampleNodeText)])])])
     ''status'' = map_of exampleRemoteFields ''status'' \<and>
   map_of (applyFields exampleRemoteFields
             [(''metadata'', Obj [(''annotations'', Obj [(DeviceInfoKey, Leaf exampleNodeText)])])])
     ''spec'' = map_of exampleRemoteFields ''spec'' \<and>
   map_of (applyFields exampleRemoteFields
             [(''metadata'', Obj [(''annotations'', Obj [(DeviceInfoKey, Leaf exampleNodeText)])])])
     ''metadata''
     = Some (Obj [(''name'', Leaf ''node-1''), (''labels'', Obj [(''zone'', Leaf ''a'')]),
                  (''annotations'', Obj [(DeviceInfoKey, Leaf exampleNodeText)])])"
proof -
  let ?c = "exampleClient exampleNewNode examplePod []"
  let ?marshal = "MarshalNode (exampleObjectJson
        [(exampleOldNode, exampleOldNodeDoc), (exampleNewNode, exampleNewNodeDoc)] [])"
  let ?originalMeta = "[(''name'', Leaf ''node-1'')]"
  let ?modifiedMeta = "[(''name'', Leaf ''node-1''),
                        (''annotations'', Obj [(DeviceInfoKey, Leaf exampleNodeText)])]"
  let ?status = "(''status'', Obj [(''capacity'', Obj [(''cpu'', Leaf ''8'')])])"
  let ?patch = "[(''metadata'', Obj [(''annotations'', Obj [(DeviceInfoKey, Leaf exampleNodeText)])])]"
  have old: "?marshal exampleOldNode = Inr (Obj [(''metadata'', Obj ?originalMeta), ?status])"
    by (simp add: exampleObjectJson_def exampleOldNodeDoc_def)
  have new: "?marshal exampleNewNode = Inr (Obj [(''metadata'', Obj ?modifiedMeta), ?status])"
    by (simp add: exampleObjectJson_def exampleNewNodeDoc_def exampleNodes_differ [symmetric])
  have "\<exists>patchFields.
          GetPatchBytes ?c ?marshal ''node-1'' exampleOldNode exampleNewNode emptyNode
            = Inr (Obj patchFields) \<and>
          (patchFields = [] \<or>
           (\<exists>a. patchFields = [(''metadata'', Obj [(''annotations'', a)])])) \<and>
          (\<forall>current k. k \<noteq> ''metadata'' \<longrightarrow>
             map_of (applyFields current patchFields) k = map_of current k) \<and>
          (\<forall>current currentMeta. map_of current ''metadata'' = Some (Obj currentMeta) \<longrightarrow>
             (\<exists>patchedMeta.
                map_of (applyFields current patchFields) ''metadata'' = Some (Obj patchedMeta) \<and>
                (\<forall>k. k \<noteq> ''annotations'' \<longrightarrow>
                   map_of patchedMeta k = map_of currentMeta k)))"
    by (rule patch_touches_only_annotations
          [where marshal = ?marshal and old = exampleOldNode and new = exampleNewNode
             and originalFields = "[(''metadata'', Obj ?originalMeta), ?status]"
             and modifiedFields = "[(''metadata'', Obj ?modifiedMeta), ?status]"
             and originalMeta = ?originalMeta and modifiedMeta = ?modifiedMeta])
       (simp_all add: old new)
  then obtain patchFields where
    run: "GetPatchBytes ?c ?marshal ''node-1'' exampleOldNode exampleNewNode emptyNode
            = Inr (Obj patchFields)" and
    untouched: "\<And>current k. k \<noteq> ''metadata'' \<Longrightarrow>
             map_of (applyFields current patchFields) k = map_of current k"
    by blast
  have built: "GetPatchBytes ?c ?marshal ''node-1'' exampleOldNode exampleNewNode emptyNode
                 = Inr examplePatch"
    by (rule example_GetPatchBytes)
  with run have p: "patchFields = ?patch"
    by (simp add: examplePatch_def)
  from untouched [of "''status''" exampleRemoteFields] untouched [of "''spec''" exampleRemoteFields]
  have "map_of (applyFields exampleRemoteFields ?patch) ''status''
          = map_of exampleRemoteFields ''status''"
       "map_of (applyFields exampleRemoteFields ?patch) ''spec''
          = map_of exampleRemoteFields ''spec''"
    by (simp_all add: p)
  moreover
  have "map_of (applyFields exampleRemoteFields ?patch) ''metadata''
     = Some (Obj [(''name'', Leaf ''node-1''), (''labels'', Obj [(''zone'', Leaf ''a'')]),
                  (''annotations'', Obj [(DeviceInfoKey, Leaf exampleNodeText)])])"
    by (simp add: exampleRemoteFields_def)
  ultimately show ?thesis
    using built by (intro conjI)
qed

section \<open>The update orchestrator: C7 and C6\<close>

text \<open>
  C7. Patching metadata and status. \<open>PatchNodeMetadata\<close> builds one patch document with
  \<open>GetPatchBytes\<close>; if that fails it returns the error and sends nothing. Otherwise it
  sends the document as a strategic merge patch for the node, first without a
  sub-resource and then for the sub-resource \<open>status\<close>, both times the same document.
  If the first patch is rejected the error names the metadata patch and nothing else is
  sent; if the second is rejected the error names the status patch and the only requests
  sent are the two patches, none that would undo the first; if both are accepted the node
  returned by the second is the result.
\<close>

theorem patch_node_metadata_and_status:
  "(GetPatchBytes c (MarshalNode js) nodeName oldNode newNode emptyNode = Inl err \<longrightarrow>
      PatchNodeMetadata js c nodeName oldNode newNode served = (Inl err, served)) \<and>
   (GetPatchBytes c (MarshalNode js) nodeName oldNode newNode emptyNode = Inr patchBytes \<longrightarrow>
      (\<forall>rejected.
         nodesPatch c served nodeName StrategicMergePatchType patchBytes [] = Inl rejected \<longrightarrow>
           PatchNodeMetadata js c nodeName oldNode newNode served
             = (Inl (PatchNodeMetadataFailed patchBytes nodeName rejected),
                served @ [NodesPatch nodeName StrategicMergePatchType patchBytes []])) \<and>
      (\<forall>updated1 rejected.
         nodesPatch c served nodeName StrategicMergePatchType patchBytes [] = Inr updated1 \<and>
         nodesPatch c (served @ [NodesPatch nodeName StrategicMergePatchType patchBytes []])
           nodeName StrategicMergePatchType patchBytes [''status''] = Inl rejected \<longrightarrow>
           PatchNodeMetadata js c nodeName oldNode newNode served
             = (Inl (PatchNodeStatusFailed patchBytes nodeName rejected),
                served @ [NodesPatch nodeName StrategicMergePatchType patchBytes [],
                          NodesPatch nodeName StrategicMergePatchType patchBytes [''status'']])) \<and>
      (\<forall>updated1 updated2.
         nodesPatch c served nodeName StrategicMergePatchType patchBytes [] = Inr updated1 \<and>
         nodesPatch c (served @ [NodesPatch nodeName StrategicMergePatchType patchBytes []])
           nodeName StrategicMergePatchType patchBytes [''status''] = Inr updated2 \<longrightarrow>
           PatchNodeMetadata js c nodeName oldNode newNode served
             = (Inr updated2,
                served @ [NodesPatch nodeName StrategicMergePatchType patchBytes [],
                          NodesPatch nodeName StrategicMergePatchType patchBytes [''status'']])))"
  by (simp add: PatchNodeMetadata_def Nodes_Patch_def)

theorem patch_node_metadata_and_status_witness:
  "PatchNodeMetadata
     (exampleObjectJson [(exampleOldNode, exampleOldNodeDoc), (exampleNewNode, exampleNewNodeDoc)] [])
     (exampleClient exampleNewNode examplePod [''status''])
     ''node-1'' exampleOldNode exampleNewNode []
     = (Inl (PatchNodeStatusFailed examplePatch ''node-1'' (StoreError ''forbidden'')),
        [NodesPatch ''node-1'' StrategicMergePatchType examplePatch [],
         NodesPatch ''node-1'' StrategicMergePatchType examplePatch [''status'']]) \<and>
   PatchNodeMetadata
     (exampleObjectJson [(exampleOldNode, exampleOldNodeDoc), (exampleNewNode, exampleNewNodeDoc)] [])
     (exampleClient exampleNewNode examplePod [])
     ''node-1'' exampleOldNode exampleNewNode []
     = (Inl (PatchNodeMetadataFailed examplePatch ''node-1'' (StoreError ''forbidden'')),
        [NodesPatch ''node-1'' StrategicMergePatchType examplePatch []]) \<and>
   PatchNodeMetadata
     (exampleObjectJson [(exampleOldNode, exampleOldNodeDoc), (exampleNewNode, exampleNewNodeDoc)] [])
     (exampleClient exampleNewNode examplePod [''scale''])
     ''node-1'' exampleOldNode exampleNewNode []
     = (Inr exampleNewNode,
        [NodesPatch ''node-1'' StrategicMergePatchType examplePatch [],
         NodesPatch ''node-1'' StrategicMergePatchType examplePatch [''status'']]) \<and>
   PatchNodeMetadata (exampleObjectJson [] []) (exampleClient exampleNewNode examplePod [])
     ''node-1'' exampleOldNode exampleNewNode []
     = (Inl (MarshalOldFailed ''node-1'' (JSONError ''unsupported value'')), [])"
proof -
  let ?js = "exampleObjectJson
               [(exampleOldNode, exampleOldNodeDoc), (exampleNewNode, exampleNewNodeDoc)] []"
  have failed: "GetPatchBytes c (MarshalNode (exampleObjectJson [] [])) ''node-1''
                  exampleOldNode exampleNewNode emptyNode
                  = Inl (MarshalOldFailed ''node-1'' (JSONError ''unsupported value''))" for c
    by (simp add: GetPatchBytes_def exampleObjectJson_def)
  show ?thesis
    using patch_node_metadata_and_status
            [where js = ?js and c = "exampleClient exampleNewNode examplePod [''status'']"
               and nodeName = "''node-1''" and oldNode = exampleOldNode
               and newNode = exampleNewNode and patchBytes = examplePatch and served = "[]"]
          patch_node_metadata_and_status
            [where js = ?js and c = "exampleClient exampleNewNode examplePod []"
               and nodeName = "''node-1''" and oldNode = exampleOldNode
               and newNode = exampleNewNode and patchBytes = examplePatch and served = "[]"]
          patch_node_metadata_and_status
            [where js = ?js and c = "exampleClient exampleNewNode examplePod [''scale'']"
               and nodeName = "''node-1''" and oldNode = exampleOldNode
               and newNode = exampleNewNode and patchBytes = examplePatch and served = "[]"]
          patch_node_metadata_and_status
            [where js = "exampleObjectJson [] []"
               and c = "exampleClient exampleNewNode examplePod []"
               and nodeName = "''node-1''" and oldNode = exampleOldNode
               and newNode = exampleNewNode and served = "[]"
               and err = "MarshalOldFailed ''node-1'' (JSONError ''unsupported value'')"]
    by (simp add: example_GetPatchBytes failed exampleClient_def)
qed

text \<open>
  C6. Updating the metadata only. \<open>UpdatePodMetadata\<close> fetches the live pod by the
  namespace and name of the desired pod and returns the store's error if that fails. If
  the name or the namespace of the desired pod differs from that of the fetched pod it
  returns the mismatch error and submits nothing. Otherwise it submits, as one update in
  the namespace of the fetched pod, the fetched pod with its annotations replaced by those
  of the desired pod: name, namespace, labels, spec and status of the submitted pod are
  those of the fetched pod.
\<close>

theorem update_pod_metadata_only:
  "(podsGet c served (Namespace (Pod.ObjectMeta newPod)) (ObjectMeta.Name (Pod.ObjectMeta newPod))
      = Inl err \<longrightarrow>
      UpdatePodMetadata c newPod served
        = (Inl err, served @ [PodsGet (Namespace (Pod.ObjectMeta newPod))
                                (ObjectMeta.Name (Pod.ObjectMeta newPod))])) \<and>
   (podsGet c served (Namespace (Pod.ObjectMeta newPod)) (ObjectMeta.Name (Pod.ObjectMeta newPod))
      = Inr oldPod \<longrightarrow>
      (ObjectMeta.Name (Pod.ObjectMeta newPod) \<noteq> ObjectMeta.Name (Pod.ObjectMeta oldPod) \<or>
       Namespace (Pod.ObjectMeta newPod) \<noteq> Namespace (Pod.ObjectMeta oldPod) \<longrightarrow>
         UpdatePodMetadata c newPod served
           = (Inl (PodMismatch (Pod.ObjectMeta newPod) (Pod.ObjectMeta oldPod)),
              served @ [PodsGet (Namespace (Pod.ObjectMeta newPod))
                          (ObjectMeta.Name (Pod.ObjectMeta newPod))])) \<and>
      (ObjectMeta.Name (Pod.ObjectMeta newPod) = ObjectMeta.Name (Pod.ObjectMeta oldPod) \<and>
       Namespace (Pod.ObjectMeta newPod) = Namespace (Pod.ObjectMeta oldPod) \<longrightarrow>
         (\<exists>submitted.
            UpdatePodMetadata c newPod served
              = (podsUpdate c
                   (served @ [PodsGet (Namespace (Pod.ObjectMeta newPod))
                                (ObjectMeta.Name (Pod.ObjectMeta newPod))])
                   (Namespace (Pod.ObjectMeta oldPod)) submitted,
                 served @ [PodsGet (Namespace (Pod.ObjectMeta newPod))
                             (ObjectMeta.Name (Pod.ObjectMeta newPod)),
                           PodsUpdate (Namespace (Pod.ObjectMeta oldPod)) submitted]) \<and>
            submitted = oldPod\<lparr>Pod.ObjectMeta :=
              (Pod.ObjectMeta oldPod)\<lparr>Annotations := Annotations (Pod.ObjectMeta newPod)\<rparr>\<rparr> \<and>
            Annotations (Pod.ObjectMeta submitted) = Annotations (Pod.ObjectMeta newPod) \<and>
            ObjectMeta.Name (Pod.ObjectMeta submitted) = ObjectMeta.Name (Pod.ObjectMeta oldPod) \<and>
            Namespace (Pod.ObjectMeta submitted) = Namespace (Pod.ObjectMeta oldPod) \<and>
            Labels (Pod.ObjectMeta submitted) = Labels (Pod.ObjectMeta oldPod) \<and>
            Spec submitted = Spec oldPod \<and> Pod.Status submitted = Pod.Status oldPod)))"
  by (cases "podsGet c served (Namespace (Pod.ObjectMeta newPod))
               (ObjectMeta.Name (Pod.ObjectMeta newPod))")
     (auto simp: UpdatePodMetadata_def Pods_Get_def Pods_Update_def Let_def)

theorem update_pod_metadata_only_witness:
  "UpdatePodMetadata (exampleClient exampleNewNode examplePod []) exampleDesiredPod []
     = (Inr (examplePod\<lparr>Pod.ObjectMeta :=
               (Pod.ObjectMeta examplePod)\<lparr>Annotations :=
                  Some (fmupd DeviceInfoKey exampleInvalidatedText fmempty)\<rparr>\<rparr>),
        [PodsGet ''default'' ''pod-1'',
         PodsUpdate ''default''
           (examplePod\<lparr>Pod.ObjectMeta :=
               (Pod.ObjectMeta examplePod)\<lparr>Annotations :=
                  Some (fmupd DeviceInfoKey exampleInvalidatedText fmempty)\<rparr>\<rparr>)]) \<and>
   UpdatePodMetadata (exampleClient exampleNewNode exampleBarePod []) exampleDesiredPod []
     = (Inl (PodMismatch (Pod.ObjectMeta exampleDesiredPod) (Pod.ObjectMeta exampleBarePod)),
        [PodsGet ''default'' ''pod-1''])"
  using update_pod_metadata_only
          [where c = "exampleClient exampleNewNode examplePod []" and newPod = exampleDesiredPod
             and served = "[]" and oldPod = examplePod]
        update_pod_metadata_only
          [where c = "exampleClient exampleNewNode exampleBarePod []" and newPod = exampleDesiredPod
             and served = "[]" and oldPod = exampleBarePod]
  by (simp add: exampleClient_def exampleDesiredPod_def examplePod_def exampleBarePod_def
        exampleMeta_def)

end
